theory Spec2Isabelle
  imports Main "HOL-Library.Word"
begin

section \<open>Go standard library functions used by the processor\<close>

text \<open>
  Go strings are byte sequences; they are modelled as \<open>string\<close> (a list of 8-bit
  \<open>char\<close>).  The functions of this section are the library routines that
  \<open>processor.go\<close> calls: \<open>strings.ReplaceAll\<close>, \<open>strings.Trim\<close>, \<open>path.Base\<close>,
  \<open>path.Split\<close>, \<open>path.Clean\<close>, \<open>path.Dir\<close>, \<open>url.QueryUnescape\<close> and
  \<open>time.Time.After\<close>.
\<close>

abbreviation slash :: char where
  "slash \<equiv> CHR ''/''"

abbreviation backslash :: char where
  "backslash \<equiv> CHR 0x5C"

abbreviation dot :: char where
  "dot \<equiv> CHR ''.''"

text \<open>\<open>strings.ReplaceAll(s, "\\", "/")\<close>: every backslash byte becomes a slash.\<close>

definition ReplaceAll_backslash :: "string \<Rightarrow> string" where
  "ReplaceAll_backslash s = map (\<lambda>c. if c = backslash then slash else c) s"

text \<open>\<open>strings.Trim(s, "/")\<close>: all leading and trailing slashes removed.\<close>

definition Trim_slash :: "string \<Rightarrow> string" where
  "Trim_slash s = rev (dropWhile (\<lambda>c. c = slash) (rev (dropWhile (\<lambda>c. c = slash) s)))"

text \<open>
  \<open>path.Base\<close>: the last element of the path.  Trailing slashes are removed first;
  the empty path gives \<open>"."\<close>, a path of slashes only gives \<open>"/"\<close>.
\<close>

definition Base :: "string \<Rightarrow> string" where
  "Base p =
     (if p = [] then ''.''
      else let q = rev (dropWhile (\<lambda>c. c = slash) (rev p));
               r = rev (takeWhile (\<lambda>c. c \<noteq> slash) (rev q))
           in if r = [] then ''/'' else r)"

text \<open>
  \<open>path.Split\<close>, first component: the path up to and including its final slash
  (empty when the path has no slash).
\<close>

definition Split_dir :: "string \<Rightarrow> string" where
  "Split_dir p = rev (dropWhile (\<lambda>c. c \<noteq> slash) (rev p))"

text \<open>
  The backtracking step of \<open>path.Clean\<close> on a \<open>..\<close> element.  Go decrements the
  write index once and then again while it is above \<open>dotdot\<close> and the byte at the
  write index (the byte removed last) is not a slash.  \<open>out\<close> holds the bytes still
  written, \<open>removed\<close> is the byte removed last.
\<close>

function backtrack :: "string \<Rightarrow> char \<Rightarrow> nat \<Rightarrow> string" where
  "backtrack out removed dotdot =
     (if length out > dotdot \<and> removed \<noteq> slash
      then backtrack (butlast out) (last out) dotdot else out)"
  by pat_completeness auto
termination
  by (relation "measure (\<lambda>(out, removed, dotdot). length out)") auto

declare backtrack.simps [simp del]

text \<open>
  The main loop of \<open>path.Clean\<close>.  \<open>rest\<close> is the unread part of the path
  (\<open>path[r:]\<close>), \<open>out\<close> the bytes written so far (\<open>out.w = length out\<close>), \<open>dotdot\<close>
  the index where \<open>..\<close> must stop.
\<close>

function cleanLoop :: "bool \<Rightarrow> string \<Rightarrow> nat \<Rightarrow> string \<Rightarrow> string" where
  "cleanLoop rooted out dotdot [] = out"
| "cleanLoop rooted out dotdot (c # cs) =
     (if c = slash then cleanLoop rooted out dotdot cs
      else if c = dot \<and> (cs = [] \<or> hd cs = slash) then cleanLoop rooted out dotdot cs
      else if c = dot \<and> cs \<noteq> [] \<and> hd cs = dot \<and> (tl cs = [] \<or> hd (tl cs) = slash) then
        (if length out > dotdot then
           cleanLoop rooted (backtrack (butlast out) (last out) dotdot) dotdot (tl cs)
         else if \<not> rooted then
           (let out' = (if length out > 0 then out @ ''/'' else out) @ ''..''
            in cleanLoop rooted out' (length out') (tl cs))
         else cleanLoop rooted out dotdot (tl cs))
      else
        (let out' = (if rooted \<and> length out \<noteq> 1 \<or> \<not> rooted \<and> length out \<noteq> 0
                     then out @ ''/'' else out)
         in cleanLoop rooted (out' @ takeWhile (\<lambda>x. x \<noteq> slash) (c # cs)) dotdot
              (dropWhile (\<lambda>x. x \<noteq> slash) (c # cs))))"
  by pat_completeness auto
termination
proof (relation "measure (\<lambda>(rooted, out, dotdot, rest). length rest)")
  show "wf (measure (\<lambda>(rooted, out, dotdot, rest). length rest))"
    by simp
next
  fix rooted :: bool and out :: string and dotdot :: nat and c :: char and cs x
  assume "c \<noteq> slash"
  then have "length (dropWhile (\<lambda>x. x \<noteq> slash) (c # cs)) \<le> length cs"
    by (simp add: length_dropWhile_le)
  then show "((rooted, x @ takeWhile (\<lambda>x. x \<noteq> slash) (c # cs), dotdot,
               dropWhile (\<lambda>x. x \<noteq> slash) (c # cs)),
              rooted, out, dotdot, c # cs)
             \<in> measure (\<lambda>(rooted, out, dotdot, rest). length rest)"
    by simp
qed auto

declare cleanLoop.simps [simp del]

text \<open>\<open>path.Clean\<close>: the shortest equivalent path; the empty result is \<open>"."\<close>.\<close>

definition Clean :: "string \<Rightarrow> string" where
  "Clean p =
     (if p = [] then ''.''
      else let rooted = (hd p = slash);
               out = (if rooted then cleanLoop True ''/'' 1 (tl p)
                      else cleanLoop False [] 0 p)
           in if out = [] then ''.'' else out)"

text \<open>\<open>path.Dir\<close>: \<open>Clean\<close> of the directory part of \<open>Split\<close>.\<close>

definition Dir :: "string \<Rightarrow> string" where
  "Dir p = Clean (Split_dir p)"

subsection \<open>\<open>url.QueryUnescape\<close> and \<open>time.Time\<close>\<close>

text \<open>\<open>ishex\<close> and \<open>unhex\<close> of package \<open>net/url\<close>, on the byte value of the character.\<close>

definition ishex :: "char \<Rightarrow> bool" where
  "ishex c = (let n = (of_char c :: nat)
              in (48 \<le> n \<and> n \<le> 57) \<or> (97 \<le> n \<and> n \<le> 102) \<or> (65 \<le> n \<and> n \<le> 70))"

definition unhex :: "char \<Rightarrow> nat" where
  "unhex c = (let n = (of_char c :: nat)
              in if 48 \<le> n \<and> n \<le> 57 then n - 48
                 else if 97 \<le> n \<and> n \<le> 102 then n - 97 + 10
                 else if 65 \<le> n \<and> n \<le> 70 then n - 65 + 10
                 else 0)"

text \<open>
  First pass of \<open>unescape\<close> in query-component mode: count the percent signs, check
  that each is followed by two hexadecimal digits, and note whether a plus sign occurs.
  A malformed escape gives the \<open>EscapeError\<close> (at most three bytes from the percent sign).
\<close>

fun unescapeScan :: "string \<Rightarrow> nat \<Rightarrow> bool \<Rightarrow> string + nat \<times> bool" where
  "unescapeScan [] n hasPlus = Inr (n, hasPlus)"
| "unescapeScan (c # cs) n hasPlus =
     (if c = CHR ''%'' then
        (case cs of
           a # b # rest \<Rightarrow>
             if ishex a \<and> ishex b then unescapeScan rest (n + 1) hasPlus
             else Inl (take 3 (c # cs))
         | _ \<Rightarrow> Inl (take 3 (c # cs)))
      else if c = CHR ''+'' then unescapeScan cs n True
      else unescapeScan cs n hasPlus)"

text \<open>
  Second pass: every \<open>%XY\<close> becomes the byte \<open>unhex X << 4 | unhex Y\<close>, every plus
  sign a space.  It runs only on strings the first pass accepted, so a percent sign is
  always followed by two bytes; the model returns the bytes written so far otherwise.
\<close>

fun unescapeWrite :: "string \<Rightarrow> string" where
  "unescapeWrite [] = []"
| "unescapeWrite (c # cs) =
     (if c = CHR ''%'' then
        (case cs of
           a # b # rest \<Rightarrow> char_of (unhex a * 16 + unhex b) # unescapeWrite rest
         | _ \<Rightarrow> [])
      else if c = CHR ''+'' then CHR '' '' # unescapeWrite cs
      else c # unescapeWrite cs)"

text \<open>
  \<open>url.QueryUnescape\<close>: the error of the first pass, the string itself when it holds
  neither a percent sign nor a plus sign, the result of the second pass otherwise.
\<close>

definition QueryUnescape :: "string \<Rightarrow> string + string" where
  "QueryUnescape s =
     (case unescapeScan s 0 False of
        Inl e \<Rightarrow> Inl e
      | Inr (n, hasPlus) \<Rightarrow> if n = 0 \<and> \<not> hasPlus then Inr s else Inr (unescapeWrite s))"

text \<open>
  \<open>time.Time\<close> values are instants; an instant is modelled as an \<open>int\<close> (its distance
  from the zero \<open>time.Time\<close>), and \<open>t.After(u)\<close> is the strict order.
\<close>

type_synonym time = int

definition After :: "time \<Rightarrow> time \<Rightarrow> bool" where
  "After t u = (t > u)"

section \<open>Data model (package \<open>models\<close>)\<close>

text \<open>
  \<open>models.File\<close> and \<open>models.Folder\<close>.  Both have fields \<open>Path\<close> and \<open>Modified\<close>;
  the selectors carry the name of the struct.  \<open>models.FileInfo\<close> is the listing record
  of a client.
\<close>

datatype File = File (File_Path: string) (File_Modified: time)

datatype Folder =
  Folder (Folder_Path: string) (Folder_Modified: time) (Files: "File list")
    (Folders: "Folder list")

record FileInfo =
  Name :: string
  Path :: string
  Size :: "64 word"
  IsDir :: bool
  ModTime :: time
  ETag :: string
  ContentType :: string
  DownloadURL :: string

text \<open>\<open>models.Folder{Path: p}\<close>: every other field has its zero value.\<close>

definition emptyFolder :: "string \<Rightarrow> Folder" where
  "emptyFolder p = Folder p 0 [] []"

section \<open>The cloud client interface and the state of a run\<close>

text \<open>
  The errors of a client are opaque to the processor, which only tests them against
  \<open>nil\<close> and wraps them.  The three kinds of remote failure that the design names
  are constructors; the remaining constructors are the errors the processor builds
  itself with \<open>fmt.Errorf\<close>, one per call site (\<open>%w\<close> keeps the cause).
\<close>

datatype error =
    NotFound
  | AlreadyExists
  | RemoteUnavailable
  | NoSyncPaths
  | FailedCreateTargetChain error
  | FailedCreateParent string error
  | FailedCreateFolder string error
  | FailedDownload error
  | FailedGetFileInfo error
  | FailedUpload error

text \<open>The innermost error of a chain of wrapped errors.\<close>

fun rootCause :: "error \<Rightarrow> error" where
  "rootCause (FailedCreateTargetChain e) = rootCause e"
| "rootCause (FailedCreateParent path e) = rootCause e"
| "rootCause (FailedCreateFolder path e) = rootCause e"
| "rootCause (FailedDownload e) = rootCause e"
| "rootCause (FailedGetFileInfo e) = rootCause e"
| "rootCause (FailedUpload e) = rootCause e"
| "rootCause e = e"

text \<open>An \<open>io.ReadCloser\<close> is modelled by the bytes it will deliver.\<close>

type_synonym reader = string

text \<open>
  Interface \<open>cloudClient\<close>.  A remote is outside the program: each method is a
  function of the state \<open>'w\<close> of the outside world (both remotes together) that
  returns its result and the next state of the world, so a method may fail or succeed
  differently at each call.
\<close>

record 'w cloudClient =
  ListFiles :: "string \<Rightarrow> 'w \<Rightarrow> (error + FileInfo list) \<times> 'w"
  DownloadFile :: "string \<Rightarrow> 'w \<Rightarrow> (error + reader) \<times> 'w"
  UploadFile :: "string \<Rightarrow> reader \<Rightarrow> 64 word \<Rightarrow> 'w \<Rightarrow> error option \<times> 'w"
  CreateFolder :: "string \<Rightarrow> 'w \<Rightarrow> error option \<times> 'w"
  GetFileInfo :: "string \<Rightarrow> 'w \<Rightarrow> (error + FileInfo) \<times> 'w"

record 'w Processor =
  yandexClient :: "'w cloudClient"
  nextcloudClient :: "'w cloudClient"

record Config =
  YandexTargetPath :: string
  NextcloudSyncPaths :: "string list"

text \<open>
  \<open>SyncStats\<close>.  The counters are Go \<open>int\<close>s (64 bits) that start at zero and are
  only incremented, once per \<open>File\<close> value of an in-memory tree; they are modelled
  as unbounded integers, a wrap-around needing a tree of \<open>2^63\<close> file nodes.
\<close>

record SyncStats =
  TotalFiles :: int
  UploadedFiles :: int
  SkippedFiles :: int
  ErrorFiles :: int

definition zeroStats :: SyncStats where
  "zeroStats = \<lparr>TotalFiles = 0, UploadedFiles = 0, SkippedFiles = 0, ErrorFiles = 0\<rparr>"

text \<open>
  Every call of a client method is recorded, in order, with the remote it went to, the
  path it was given and whether it returned without error.  The log is not part of
  the program; it is what statements such as "no \<open>mkdir\<close> was issued" talk about.
\<close>

datatype remote = Yandex | Nextcloud

datatype operation =
  ListFilesCall | DownloadFileCall | UploadFileCall | CreateFolderCall | GetFileInfoCall
  | CloseCall

datatype event = Event (ev_remote: remote) (ev_op: operation) (ev_path: string) (ev_ok: bool)

text \<open>
  The state threaded through a run: the outside world, the log of client calls, and
  the \<open>SyncStats\<close> value behind the pointer \<open>stats\<close>.
\<close>

record 'w pstate =
  world :: 'w
  calls :: "event list"
  stats :: SyncStats

text \<open>
  A call of a client method on the current state: the world moves on as the method says
  and the call is appended to the log.
\<close>

definition callListFiles ::
  "remote \<Rightarrow> 'w cloudClient \<Rightarrow> string \<Rightarrow> 'w pstate \<Rightarrow> (error + FileInfo list) \<times> 'w pstate" where
  "callListFiles r c path s =
     (case ListFiles c path (world s) of
        (res, w) \<Rightarrow> (res, s\<lparr>world := w, calls := calls s @ [Event r ListFilesCall path (\<not> isl res)]\<rparr>))"

definition callDownloadFile ::
  "remote \<Rightarrow> 'w cloudClient \<Rightarrow> string \<Rightarrow> 'w pstate \<Rightarrow> (error + reader) \<times> 'w pstate" where
  "callDownloadFile r c path s =
     (case DownloadFile c path (world s) of
        (res, w) \<Rightarrow>
          (res, s\<lparr>world := w, calls := calls s @ [Event r DownloadFileCall path (\<not> isl res)]\<rparr>))"

definition callUploadFile ::
  "remote \<Rightarrow> 'w cloudClient \<Rightarrow> string \<Rightarrow> reader \<Rightarrow> 64 word \<Rightarrow> 'w pstate
     \<Rightarrow> error option \<times> 'w pstate" where
  "callUploadFile r c path content sz s =
     (case UploadFile c path content sz (world s) of
        (res, w) \<Rightarrow>
          (res, s\<lparr>world := w, calls := calls s @ [Event r UploadFileCall path (res = None)]\<rparr>))"

definition callCreateFolder ::
  "remote \<Rightarrow> 'w cloudClient \<Rightarrow> string \<Rightarrow> 'w pstate \<Rightarrow> error option \<times> 'w pstate" where
  "callCreateFolder r c path s =
     (case CreateFolder c path (world s) of
        (res, w) \<Rightarrow>
          (res, s\<lparr>world := w, calls := calls s @ [Event r CreateFolderCall path (res = None)]\<rparr>))"

definition callGetFileInfo ::
  "remote \<Rightarrow> 'w cloudClient \<Rightarrow> string \<Rightarrow> 'w pstate \<Rightarrow> (error + FileInfo) \<times> 'w pstate" where
  "callGetFileInfo r c path s =
     (case GetFileInfo c path (world s) of
        (res, w) \<Rightarrow>
          (res, s\<lparr>world := w, calls := calls s @ [Event r GetFileInfoCall path (\<not> isl res)]\<rparr>))"

text \<open>\<open>defer reader.Close()\<close>: the stream obtained from \<open>r\<close> for \<open>path\<close> is closed.\<close>

definition closeReader :: "remote \<Rightarrow> string \<Rightarrow> 'w pstate \<Rightarrow> 'w pstate" where
  "closeReader r path s = s\<lparr>calls := calls s @ [Event r CloseCall path True]\<rparr>"

section \<open>The processor (package \<open>processor\<close>)\<close>

text \<open>
  The functions of \<open>processor.go\<close>, in state-passing style.  Calls of \<open>log.Printf\<close>
  are left out: they change neither the remotes nor the counters nor what is returned.
\<close>

subsection \<open>\<open>path.Clean\<close> does not lengthen a path\<close>

text \<open>
  \<open>createFolderChain\<close> recurses on \<open>path.Dir\<close> of its trimmed argument.  That the
  recursion ends rests on \<open>path.Clean\<close> never returning more bytes than it was given
  (the empty path apart): the write index never overtakes the read index.
\<close>

lemma backtrack_length: "length (backtrack out removed dotdot) \<le> length out"
proof (induction out removed dotdot rule: backtrack.induct)
  case (1 out removed dotdot)
  show ?case
  proof (cases "length out > dotdot \<and> removed \<noteq> slash")
    case True
    then have "length (backtrack (butlast out) (last out) dotdot) \<le> length (butlast out)"
      using "1.IH" by simp
    moreover have "backtrack out removed dotdot = backtrack (butlast out) (last out) dotdot"
      using True by (subst backtrack.simps) simp
    ultimately show ?thesis by simp
  next
    case False
    then have "backtrack out removed dotdot = out"
      by (subst backtrack.simps) auto
    then show ?thesis by simp
  qed
qed

text \<open>
  Where the next element will be written after a separating slash that the input has
  not paid for yet, the output may be one byte ahead.
\<close>

definition slack :: "bool \<Rightarrow> string \<Rightarrow> string \<Rightarrow> nat" where
  "slack rooted out rest =
     (if length out = (if rooted then 1 else 0) \<or> rest = [] \<or> hd rest = slash then 0 else 1)"

lemma cleanLoop_length:
  "length (cleanLoop rooted out dotdot rest) \<le> length out + length rest + slack rooted out rest"
proof (induction rooted out dotdot rest rule: cleanLoop.induct)
  case (1 rooted out dotdot)
  show ?case by (simp add: cleanLoop.simps)
next
  case (2 rooted out dotdot c cs)
  consider (sl) "c = slash"
    | (dt) "c \<noteq> slash" "c = dot \<and> (cs = [] \<or> hd cs = slash)"
    | (dd) "c \<noteq> slash" "\<not> (c = dot \<and> (cs = [] \<or> hd cs = slash))"
           "c = dot \<and> cs \<noteq> [] \<and> hd cs = dot \<and> (tl cs = [] \<or> hd (tl cs) = slash)"
    | (el) "c \<noteq> slash" "\<not> (c = dot \<and> (cs = [] \<or> hd cs = slash))"
           "\<not> (c = dot \<and> cs \<noteq> [] \<and> hd cs = dot \<and> (tl cs = [] \<or> hd (tl cs) = slash))"
    by blast
  then show ?case
  proof cases
    case sl
    have eq: "cleanLoop rooted out dotdot (c # cs) = cleanLoop rooted out dotdot cs"
      using sl by (subst cleanLoop.simps) simp
    have "length (cleanLoop rooted out dotdot cs) \<le> length out + length cs + slack rooted out cs"
      using "2.IH"(1) sl by simp
    moreover have "slack rooted out cs \<le> 1" by (simp add: slack_def)
    ultimately show ?thesis
      unfolding eq by simp
  next
    case dt
    have eq: "cleanLoop rooted out dotdot (c # cs) = cleanLoop rooted out dotdot cs"
      using dt by (subst cleanLoop.simps) simp
    have "length (cleanLoop rooted out dotdot cs) \<le> length out + length cs + slack rooted out cs"
      using "2.IH"(2) dt by simp
    moreover have "slack rooted out cs = 0" using dt by (auto simp: slack_def)
    ultimately show ?thesis
      unfolding eq by simp
  next
    case dd
    have tl0: "slack rooted o' (tl cs) = 0" for o'
      using dd by (auto simp: slack_def)
    obtain ds where cs: "cs = dot # ds"
      using dd by (cases cs) auto
    show ?thesis
    proof (cases "length out > dotdot")
      case True
      have eq: "cleanLoop rooted out dotdot (c # cs)
                = cleanLoop rooted (backtrack (butlast out) (last out) dotdot) dotdot (tl cs)"
        using dd True by (subst cleanLoop.simps) simp
      have "length (cleanLoop rooted (backtrack (butlast out) (last out) dotdot) dotdot (tl cs))
            \<le> length (backtrack (butlast out) (last out) dotdot) + length (tl cs)"
        using "2.IH"(3) [OF dd True] tl0 [of "backtrack (butlast out) (last out) dotdot"] by simp
      moreover have "length (backtrack (butlast out) (last out) dotdot) \<le> length out"
        using backtrack_length [of "butlast out" "last out" dotdot] by simp
      ultimately show ?thesis
        unfolding eq by (simp add: cs)
    next
      case False
      show ?thesis
      proof (cases rooted)
        case True
        have eq: "cleanLoop rooted out dotdot (c # cs) = cleanLoop rooted out dotdot (tl cs)"
          using dd False True by (subst cleanLoop.simps) simp
        have "length (cleanLoop rooted out dotdot (tl cs)) \<le> length out + length (tl cs)"
          using "2.IH"(5) dd False True tl0 [of out] by simp
        then show ?thesis
          unfolding eq by (simp add: cs)
      next
        case nr: False
        define out' where "out' = (if length out > 0 then out @ ''/'' else out) @ ''..''"
        have eq: "cleanLoop rooted out dotdot (c # cs) = cleanLoop rooted out' (length out') (tl cs)"
          using dd False nr by (subst cleanLoop.simps) (simp add: out'_def Let_def)
        have "length (cleanLoop rooted out' (length out') (tl cs)) \<le> length out' + length (tl cs)"
          using "2.IH"(4) [OF dd(1) dd(2) dd(3) False nr out'_def] tl0 [of out'] by simp
        moreover have "length out' \<le> length out + 2 + slack rooted out (c # cs)"
          using dd nr by (auto simp: out'_def slack_def)
        ultimately show ?thesis
          unfolding eq by (simp add: cs)
      qed
    qed
  next
    case el
    define out' where "out' = (if rooted \<and> length out \<noteq> 1 \<or> \<not> rooted \<and> length out \<noteq> 0
                     then out @ ''/'' else out)"
    let ?tk = "takeWhile (\<lambda>x. x \<noteq> slash) (c # cs)"
    let ?dr = "dropWhile (\<lambda>x. x \<noteq> slash) (c # cs)"
    have eq: "cleanLoop rooted out dotdot (c # cs) = cleanLoop rooted (out' @ ?tk) dotdot ?dr"
      using el unfolding out'_def by (subst cleanLoop.simps) (simp only: if_False Let_def)
    have "length (cleanLoop rooted (out' @ ?tk) dotdot ?dr)
          \<le> length (out' @ ?tk) + length ?dr + slack rooted (out' @ ?tk) ?dr"
      using "2.IH"(6) [OF el(1) el(2) el(3) out'_def] by simp
    moreover have "slack rooted (out' @ ?tk) ?dr = 0"
      using hd_dropWhile [of "\<lambda>x. x \<noteq> slash" "c # cs"] by (auto simp: slack_def)
    moreover have "length ?tk + length ?dr = length (c # cs)"
      by (metis length_append takeWhile_dropWhile_id)
    moreover have "length out' \<le> length out + slack rooted out (c # cs)"
      using el by (auto simp: out'_def slack_def)
    ultimately show ?thesis
      unfolding eq by simp
  qed
qed

lemma Clean_length: "p \<noteq> [] \<Longrightarrow> length (Clean p) \<le> length p"
proof -
  assume ne: "p \<noteq> []"
  then obtain c cs where p: "p = c # cs" by (cases p) auto
  show ?thesis
  proof (cases "c = slash")
    case True
    have "length (cleanLoop True ''/'' 1 cs) \<le> 1 + length cs"
      using cleanLoop_length [of True "''/''" 1 cs] by (simp add: slack_def)
    then show ?thesis using True p by (simp add: Clean_def Let_def)
  next
    case False
    have "length (cleanLoop False [] 0 p) \<le> length p"
      using cleanLoop_length [of False "[]" 0 p] by (simp add: slack_def)
    then show ?thesis using False p by (simp add: Clean_def Let_def)
  qed
qed

lemma Split_dir_length:
  assumes "p \<noteq> []" and "last p \<noteq> slash"
  shows "length (Split_dir p) < length p"
proof -
  obtain x xs where r: "rev p = x # xs" and "x \<noteq> slash"
    using assms by (cases "rev p") (auto simp: last_rev [symmetric] simp del: last_rev)
  then have "length (dropWhile (\<lambda>c. c \<noteq> slash) (rev p)) \<le> length xs"
    by (simp add: length_dropWhile_le)
  moreover have "length p = Suc (length xs)"
    using r by (metis length_Cons length_rev)
  ultimately show ?thesis
    by (simp add: Split_dir_def)
qed

lemma Trim_slash_length: "length (Trim_slash s) \<le> length s"
proof -
  have "length (Trim_slash s) \<le> length (dropWhile (\<lambda>c. c = slash) s)"
    unfolding Trim_slash_def using length_dropWhile_le [of _ "rev (dropWhile (\<lambda>c. c = slash) s)"]
    by simp
  also have "\<dots> \<le> length s" by (rule length_dropWhile_le)
  finally show ?thesis .
qed

lemma Trim_slash_last: "Trim_slash s \<noteq> [] \<Longrightarrow> last (Trim_slash s) \<noteq> slash"
proof -
  assume ne: "Trim_slash s \<noteq> []"
  let ?d = "dropWhile (\<lambda>c. c = slash) (rev (dropWhile (\<lambda>c. c = slash) s))"
  have "?d \<noteq> []" using ne by (simp add: Trim_slash_def)
  then have "hd ?d \<noteq> slash" using hd_dropWhile [of "\<lambda>c. c = slash"] by blast
  then show ?thesis using \<open>?d \<noteq> []\<close> by (simp add: Trim_slash_def last_rev)
qed

lemma Dir_shorter:
  assumes "Trim_slash (ReplaceAll_backslash folderPath) \<noteq> []"
    and "Dir (Trim_slash (ReplaceAll_backslash folderPath)) \<noteq> ''.''"
  shows "length (Dir (Trim_slash (ReplaceAll_backslash folderPath))) < length folderPath"
proof -
  let ?fp = "Trim_slash (ReplaceAll_backslash folderPath)"
  have d: "Split_dir ?fp \<noteq> []"
    using assms(2) by (auto simp: Dir_def Clean_def)
  have "length (Dir ?fp) \<le> length (Split_dir ?fp)"
    unfolding Dir_def using d by (rule Clean_length)
  also have "\<dots> < length ?fp"
    using assms(1) Trim_slash_last by (intro Split_dir_length) auto
  also have "\<dots> \<le> length (ReplaceAll_backslash folderPath)"
    by (rule Trim_slash_length)
  finally show ?thesis by (simp add: ReplaceAll_backslash_def)
qed

subsection \<open>The folder chain creator\<close>

text \<open>
  \<open>createFolderChain\<close> (\<open>processor.go\<close>, lines 141--172).  The path is normalised; the
  empty path needs nothing, nor does a path for which \<open>GetFileInfo\<close> succeeds.
  Otherwise the parent given by \<open>path.Dir\<close> is created first, unless it is \<open>"."\<close>,
  \<open>"/"\<close> or the path itself, and then the folder.  The recursive call is on a strictly
  shorter string (lemma \<open>Dir_shorter\<close>), so the function is total.
\<close>

function createFolderChain :: "'w Processor \<Rightarrow> string \<Rightarrow> 'w pstate \<Rightarrow> error option \<times> 'w pstate" where
  "createFolderChain p folderPath s =
     (let folderPath' = Trim_slash (ReplaceAll_backslash folderPath) in
      if folderPath' = [] then (None, s)
      else
        case callGetFileInfo Yandex (yandexClient p) folderPath' s of
          (Inr info, s1) \<Rightarrow> (None, s1)
        | (Inl err, s1) \<Rightarrow>
            (let parentPath = Dir folderPath' in
             case (if parentPath \<noteq> ''.'' \<and> parentPath \<noteq> ''/'' \<and> parentPath \<noteq> folderPath'
                   then createFolderChain p parentPath s1 else (None, s1)) of
               (Some createErr, s2) \<Rightarrow> (Some (FailedCreateParent parentPath createErr), s2)
             | (None, s2) \<Rightarrow>
                 (case callCreateFolder Yandex (yandexClient p) folderPath' s2 of
                    (Some err', s3) \<Rightarrow> (Some (FailedCreateFolder folderPath' err'), s3)
                  | (None, s3) \<Rightarrow> (None, s3))))"
  by pat_completeness auto
termination
  by (relation "measure (\<lambda>(p, folderPath, s). length folderPath)") (auto simp: Dir_shorter)

declare createFolderChain.simps [simp del]

subsection \<open>The file transfer\<close>

text \<open>
  The decoding of a base name, which the source writes out three times (lines 196--200,
  237--241 and 269--273): \<open>url.QueryUnescape\<close>, and the name as it is when that fails.
\<close>

definition decodeName :: "string \<Rightarrow> string" where
  "decodeName name = (case QueryUnescape name of Inl err \<Rightarrow> name | Inr decoded \<Rightarrow> decoded)"

text \<open>
  \<open>syncFile\<close> (lines 267--295).  Once the download has succeeded, the deferred
  \<open>Close\<close> runs on every return.
\<close>

definition syncFile ::
  "'w Processor \<Rightarrow> string \<Rightarrow> string \<Rightarrow> string \<Rightarrow> 'w pstate \<Rightarrow> error option \<times> 'w pstate" where
  "syncFile p ncFilePath yandexBasePath fileName s =
     (let decodedFileName = decodeName fileName in
      case callDownloadFile Nextcloud (nextcloudClient p) ncFilePath s of
        (Inl err, s1) \<Rightarrow> (Some (FailedDownload err), s1)
      | (Inr content, s1) \<Rightarrow>
          (case callGetFileInfo Nextcloud (nextcloudClient p) ncFilePath s1 of
             (Inl err, s2) \<Rightarrow> (Some (FailedGetFileInfo err), closeReader Nextcloud ncFilePath s2)
           | (Inr ncFileInfo, s2) \<Rightarrow>
               (let yandexFilePath = yandexBasePath @ ''/'' @ decodedFileName in
                case callUploadFile Yandex (yandexClient p) yandexFilePath content
                       (Size ncFileInfo) s2 of
                  (Some err, s3) \<Rightarrow> (Some (FailedUpload err), closeReader Nextcloud ncFilePath s3)
                | (None, s3) \<Rightarrow> (None, closeReader Nextcloud ncFilePath s3))))"

subsection \<open>The reconciler\<close>

text \<open>
  The two lookup tables of \<open>syncFolders\<close> (lines 177--188), filled in listing order: a
  later entry with the same base name replaces an earlier one.
\<close>

definition yandexFilesMap :: "File list \<Rightarrow> (string \<rightharpoonup> File)" where
  "yandexFilesMap files = foldl (\<lambda>m file. m(Base (File_Path file) \<mapsto> file)) Map.empty files"

definition yandexFoldersMap :: "Folder list \<Rightarrow> (string \<rightharpoonup> Folder)" where
  "yandexFoldersMap folders =
     foldl (\<lambda>m folder. m(Base (Folder_Path folder) \<mapsto> folder)) Map.empty folders"

text \<open>The increments of the four counters through the pointer \<open>stats\<close>.\<close>

definition addTotal :: "'w pstate \<Rightarrow> 'w pstate" where
  "addTotal s = s\<lparr>stats := (stats s)\<lparr>TotalFiles := TotalFiles (stats s) + 1\<rparr>\<rparr>"

definition addUploaded :: "'w pstate \<Rightarrow> 'w pstate" where
  "addUploaded s = s\<lparr>stats := (stats s)\<lparr>UploadedFiles := UploadedFiles (stats s) + 1\<rparr>\<rparr>"

definition addSkipped :: "'w pstate \<Rightarrow> 'w pstate" where
  "addSkipped s = s\<lparr>stats := (stats s)\<lparr>SkippedFiles := SkippedFiles (stats s) + 1\<rparr>\<rparr>"

definition addError :: "'w pstate \<Rightarrow> 'w pstate" where
  "addError s = s\<lparr>stats := (stats s)\<lparr>ErrorFiles := ErrorFiles (stats s) + 1\<rparr>\<rparr>"

text \<open>The value of the variable \<open>needsSync\<close> after lines 203--219.\<close>

definition needsSync :: "(string \<rightharpoonup> File) \<Rightarrow> File \<Rightarrow> bool" where
  "needsSync yandexFiles ncFile =
     (case yandexFiles (decodeName (Base (File_Path ncFile))) of
        None \<Rightarrow> True
      | Some yandexFile \<Rightarrow> After (File_Modified ncFile) (File_Modified yandexFile))"

text \<open>
  The body of the loop over the source files (lines 192--229): count the file, classify
  it, and either transfer it and count the outcome or count it as skipped.
\<close>

definition syncFileEntry ::
  "'w Processor \<Rightarrow> (string \<rightharpoonup> File) \<Rightarrow> string \<Rightarrow> File \<Rightarrow> 'w pstate \<Rightarrow> 'w pstate" where
  "syncFileEntry p yandexFiles yandexBasePath ncFile s =
     (let s0 = addTotal s;
          fileName = Base (File_Path ncFile)
      in if needsSync yandexFiles ncFile then
           (case syncFile p (File_Path ncFile) yandexBasePath fileName s0 of
              (Some err, s1) \<Rightarrow> addError s1
            | (None, s1) \<Rightarrow> addUploaded s1)
         else addSkipped s0)"

text \<open>The loop over the source files (lines 191--230).\<close>

fun syncFiles ::
  "'w Processor \<Rightarrow> (string \<rightharpoonup> File) \<Rightarrow> string \<Rightarrow> File list \<Rightarrow> 'w pstate \<Rightarrow> 'w pstate" where
  "syncFiles p yandexFiles yandexBasePath [] s = s"
| "syncFiles p yandexFiles yandexBasePath (ncFile # rest) s =
     syncFiles p yandexFiles yandexBasePath rest
       (syncFileEntry p yandexFiles yandexBasePath ncFile s)"

text \<open>
  \<open>syncFolders\<close> (lines 175--264) and its loop over the source subfolders (lines
  233--261).  A subfolder that the destination does not have is created with
  \<open>createFolderChain\<close>; when that fails the subfolder is left out (\<open>continue\<close>).  The
  error of the recursive call is logged and dropped, and the function returns \<open>nil\<close>.
  The recursion is on the source tree.
\<close>

fun syncFolders ::
  "'w Processor \<Rightarrow> Folder \<Rightarrow> Folder \<Rightarrow> string \<Rightarrow> 'w pstate \<Rightarrow> error option \<times> 'w pstate"
and syncSubFolders ::
  "'w Processor \<Rightarrow> (string \<rightharpoonup> Folder) \<Rightarrow> string \<Rightarrow> Folder list \<Rightarrow> 'w pstate \<Rightarrow> 'w pstate"
where
  "syncFolders p (Folder ncPath ncModified ncFiles ncFolders) yandexFolder yandexBasePath s =
     (let yandexFiles = yandexFilesMap (Files yandexFolder);
          yandexFolders = yandexFoldersMap (Folders yandexFolder);
          s1 = syncFiles p yandexFiles yandexBasePath ncFiles s;
          s2 = syncSubFolders p yandexFolders yandexBasePath ncFolders s1
      in (None, s2))"
| "syncSubFolders p yandexFolders yandexBasePath [] s = s"
| "syncSubFolders p yandexFolders yandexBasePath (ncSubFolder # rest) s =
     (let subFolderName = Base (Folder_Path ncSubFolder);
          decodedFolderName = decodeName subFolderName;
          yandexSubFolderPath = yandexBasePath @ ''/'' @ decodedFolderName
      in case yandexFolders decodedFolderName of
           Some yandexSubFolder \<Rightarrow>
             (case syncFolders p ncSubFolder yandexSubFolder yandexSubFolderPath s of
                (err, s2) \<Rightarrow> syncSubFolders p yandexFolders yandexBasePath rest s2)
         | None \<Rightarrow>
             (case createFolderChain p yandexSubFolderPath s of
                (Some err, s1) \<Rightarrow> syncSubFolders p yandexFolders yandexBasePath rest s1
              | (None, s1) \<Rightarrow>
                  (case syncFolders p ncSubFolder (emptyFolder yandexSubFolderPath)
                          yandexSubFolderPath s1 of
                     (err, s2) \<Rightarrow> syncSubFolders p yandexFolders yandexBasePath rest s2)))"

subsection \<open>The snapshot builder\<close>

text \<open>
  \<open>getYandexFileSystem\<close> and \<open>getNextcloudFileSystem\<close> (lines 297--349) are the same
  function on the two clients; \<open>getEntries\<close> is its loop over a listing.  The recursion
  follows the listings of the remote, which the program does not control, so the model
  carries a bound \<open>fuel\<close> on the depth of the recursion: the result \<open>None\<close> means that
  the bound was reached, \<open>Some\<close> carries what the Go function returns.
\<close>

fun getFileSystem ::
  "nat \<Rightarrow> remote \<Rightarrow> 'w cloudClient \<Rightarrow> string \<Rightarrow> 'w pstate \<Rightarrow> ((error + Folder) \<times> 'w pstate) option"
and getEntries ::
  "nat \<Rightarrow> remote \<Rightarrow> 'w cloudClient \<Rightarrow> FileInfo list \<Rightarrow> Folder \<Rightarrow> 'w pstate
     \<Rightarrow> ((error + Folder) \<times> 'w pstate) option"
where
  "getFileSystem 0 r c rootPath s = None"
| "getFileSystem (Suc fuel) r c rootPath s =
     (case callListFiles r c rootPath s of
        (Inl err, s1) \<Rightarrow> Some (Inl err, s1)
      | (Inr files, s1) \<Rightarrow> getEntries fuel r c files (emptyFolder rootPath) s1)"
| "getEntries fuel r c [] folder s = Some (Inr folder, s)"
| "getEntries fuel r c (file # files) folder s =
     (if IsDir file then
        (case getFileSystem fuel r c (Path file) s of
           None \<Rightarrow> None
         | Some (Inl err, s1) \<Rightarrow> Some (Inl err, s1)
         | Some (Inr subFolder, s1) \<Rightarrow>
             getEntries fuel r c files
               (Folder (Folder_Path folder) (Folder_Modified folder) (Files folder)
                  (Folders folder @ [subFolder])) s1)
      else
        getEntries fuel r c files
          (Folder (Folder_Path folder) (Folder_Modified folder)
             (Files folder @ [File (Path file) (ModTime file)]) (Folders folder)) s)"

definition getYandexFileSystem ::
  "nat \<Rightarrow> 'w Processor \<Rightarrow> string \<Rightarrow> 'w pstate \<Rightarrow> ((error + Folder) \<times> 'w pstate) option" where
  "getYandexFileSystem fuel p rootPath s = getFileSystem fuel Yandex (yandexClient p) rootPath s"

definition getNextcloudFileSystem ::
  "nat \<Rightarrow> 'w Processor \<Rightarrow> string \<Rightarrow> 'w pstate \<Rightarrow> ((error + Folder) \<times> 'w pstate) option" where
  "getNextcloudFileSystem fuel p rootPath s =
     getFileSystem fuel Nextcloud (nextcloudClient p) rootPath s"

subsection \<open>The orchestrator\<close>

text \<open>
  The target path of a sync path (lines 87--98): the destination root when exactly one
  sync path is configured, otherwise the destination root, a slash and \<open>pathName\<close>.
\<close>

definition subfolderName :: "string \<Rightarrow> string" where
  "subfolderName syncPath =
     (let pathName = Base syncPath
      in if pathName = ''/'' \<or> pathName = ''.'' then ''root'' else pathName)"

definition syncTargetPath :: "Config \<Rightarrow> string \<Rightarrow> string" where
  "syncTargetPath cfg syncPath =
     (if length (NextcloudSyncPaths cfg) = 1 then YandexTargetPath cfg
      else YandexTargetPath cfg @ ''/'' @ subfolderName syncPath)"

text \<open>
  The body of the loop of \<open>Main\<close> over the sync paths (lines 75--123) and the loop
  itself.  Every failure inside the body ends the iteration (\<open>continue\<close>); \<open>None\<close>
  means that a snapshot reached the bound on its depth.
\<close>

definition processSyncPath ::
  "nat \<Rightarrow> 'w Processor \<Rightarrow> Config \<Rightarrow> Folder \<Rightarrow> string \<Rightarrow> 'w pstate \<Rightarrow> 'w pstate option" where
  "processSyncPath fuel p cfg yndxFs syncPath s =
     (case getNextcloudFileSystem fuel p syncPath s of
        None \<Rightarrow> None
      | Some (Inl err, s1) \<Rightarrow> Some s1
      | Some (Inr ncFs, s1) \<Rightarrow>
          (let targetPath = syncTargetPath cfg syncPath in
           if targetPath = YandexTargetPath cfg then
             (case syncFolders p ncFs yndxFs targetPath s1 of (err, s4) \<Rightarrow> Some s4)
           else
             (case getYandexFileSystem fuel p targetPath s1 of
                None \<Rightarrow> None
              | Some (Inl err, s2) \<Rightarrow>
                  (case callCreateFolder Yandex (yandexClient p) targetPath s2 of
                     (Some createErr, s3) \<Rightarrow> Some s3
                   | (None, s3) \<Rightarrow>
                       (case syncFolders p ncFs (emptyFolder targetPath) targetPath s3 of
                          (err, s4) \<Rightarrow> Some s4))
              | Some (Inr existingFs, s2) \<Rightarrow>
                  (case syncFolders p ncFs existingFs targetPath s2 of (err, s4) \<Rightarrow> Some s4))))"

fun processSyncPaths ::
  "nat \<Rightarrow> 'w Processor \<Rightarrow> Config \<Rightarrow> Folder \<Rightarrow> string list \<Rightarrow> 'w pstate \<Rightarrow> 'w pstate option" where
  "processSyncPaths fuel p cfg yndxFs [] s = Some s"
| "processSyncPaths fuel p cfg yndxFs (syncPath # rest) s =
     (case processSyncPath fuel p cfg yndxFs syncPath s of
        None \<Rightarrow> None
      | Some s1 \<Rightarrow> processSyncPaths fuel p cfg yndxFs rest s1)"

text \<open>
  \<open>Main\<close> (lines 50--130): the returned error and the final state.  \<open>syncStats\<close> is the
  \<open>stats\<close> component of the state, set to zero where the source allocates it.
\<close>

definition Main ::
  "nat \<Rightarrow> 'w Processor \<Rightarrow> Config \<Rightarrow> 'w pstate \<Rightarrow> (error option \<times> 'w pstate) option" where
  "Main fuel p cfg s =
     (if length (NextcloudSyncPaths cfg) = 0 then Some (Some NoSyncPaths, s)
      else
        case getYandexFileSystem fuel p (YandexTargetPath cfg) s of
          None \<Rightarrow> None
        | Some (Inl err, s1) \<Rightarrow>
            (case createFolderChain p (YandexTargetPath cfg) s1 of
               (Some createErr, s2) \<Rightarrow> Some (Some (FailedCreateTargetChain createErr), s2)
             | (None, s2) \<Rightarrow>
                 (case processSyncPaths fuel p cfg (emptyFolder (YandexTargetPath cfg))
                         (NextcloudSyncPaths cfg) (s2\<lparr>stats := zeroStats\<rparr>) of
                    None \<Rightarrow> None
                  | Some s3 \<Rightarrow> Some (None, s3)))
        | Some (Inr yndxFs, s1) \<Rightarrow>
            (case processSyncPaths fuel p cfg yndxFs (NextcloudSyncPaths cfg)
                    (s1\<lparr>stats := zeroStats\<rparr>) of
               None \<Rightarrow> None
             | Some s3 \<Rightarrow> Some (None, s3)))"

section \<open>Notions used to state the properties\<close>

text \<open>
  Names for three parts of \<open>createFolderChain\<close>: the normalised path, the test that
  guards the recursive call, and the step that creates the parent.
\<close>

definition normalizePath :: "string \<Rightarrow> string" where
  "normalizePath folderPath = Trim_slash (ReplaceAll_backslash folderPath)"

definition recurses :: "string \<Rightarrow> bool" where
  "recurses fp = (Dir fp \<noteq> ''.'' \<and> Dir fp \<noteq> ''/'' \<and> Dir fp \<noteq> fp)"

definition createParent :: "'w Processor \<Rightarrow> string \<Rightarrow> 'w pstate \<Rightarrow> error option \<times> 'w pstate" where
  "createParent p fp s = (if recurses fp then createFolderChain p (Dir fp) s else (None, s))"

text \<open>
  \<open>statsGrow a b\<close>: from \<open>a\<close> to \<open>b\<close> no counter has gone down, and the total has
  grown by as much as the three outcome counters together.
\<close>

definition statsGrow :: "SyncStats \<Rightarrow> SyncStats \<Rightarrow> bool" where
  "statsGrow a b =
     (TotalFiles a \<le> TotalFiles b \<and> UploadedFiles a \<le> UploadedFiles b
      \<and> SkippedFiles a \<le> SkippedFiles b \<and> ErrorFiles a \<le> ErrorFiles b
      \<and> TotalFiles b - TotalFiles a =
          (UploadedFiles b - UploadedFiles a) + (SkippedFiles b - SkippedFiles a)
          + (ErrorFiles b - ErrorFiles a))"

text \<open>A name contains a percent-escape when a percent sign is followed by two hexadecimal digits.\<close>

fun hasEscape :: "string \<Rightarrow> bool" where
  "hasEscape (c # a # b # rest) =
     ((c = CHR ''%'' \<and> ishex a \<and> ishex b) \<or> hasEscape (a # b # rest))"
| "hasEscape s = False"

text \<open>
  \<open>mkdirsAfterFailedLookup seen new\<close>: every \<open>CreateFolder\<close> call in the log \<open>new\<close>
  comes after a \<open>GetFileInfo\<close> call that failed for the same path on the same remote,
  in \<open>new\<close> itself or in the earlier log \<open>seen\<close>.
\<close>

fun mkdirsAfterFailedLookup :: "event list \<Rightarrow> event list \<Rightarrow> bool" where
  "mkdirsAfterFailedLookup seen [] = True"
| "mkdirsAfterFailedLookup seen (e # es) =
     ((ev_op e = CreateFolderCall \<longrightarrow>
         Event (ev_remote e) GetFileInfoCall (ev_path e) False \<in> set seen)
      \<and> mkdirsAfterFailedLookup (seen @ [e]) es)"

text \<open>
  A remote on which what was found or created can be found again: a lookup that
  resolved resolves again in the world it left, and so does the lookup of a path whose
  \<open>mkdir\<close> succeeded.
\<close>

definition lookupStable :: "'w cloudClient \<Rightarrow> bool" where
  "lookupStable c \<longleftrightarrow>
     (\<forall>path w info w'. GetFileInfo c path w = (Inr info, w') \<longrightarrow>
        (\<exists>info' w''. GetFileInfo c path w' = (Inr info', w'')))
     \<and> (\<forall>path w w'. CreateFolder c path w = (None, w') \<longrightarrow>
        (\<exists>info w''. GetFileInfo c path w' = (Inr info, w'')))"

section \<open>A test double for the two remotes\<close>

text \<open>
  A small world with both remotes in it.  \<open>existing\<close> are the paths the destination has,
  \<open>racing\<close> the paths that somebody else creates between a lookup and the \<open>mkdir\<close>
  that follows it (the lookup fails, the \<open>mkdir\<close> answers \<open>AlreadyExists\<close>), \<open>broken\<close>
  the paths at which a remote is unavailable.  The source holds one file, \<open>/docs/a.txt\<close>;
  every other source listing is empty.
\<close>

record demoWorld =
  existing :: "string list"
  racing :: "string list"
  broken :: "string list"

definition demoInfo :: "string \<Rightarrow> FileInfo" where
  "demoInfo path =
     \<lparr>Name = Base path, Path = path, Size = 4, IsDir = False, ModTime = 0, ETag = [],
      ContentType = [], DownloadURL = []\<rparr>"

definition demoYandex :: "demoWorld cloudClient" where
  "demoYandex =
     \<lparr>ListFiles = (\<lambda>path w.
        if path \<in> set (broken w) then (Inl RemoteUnavailable, w)
        else if path \<in> set (existing w) then (Inr [], w)
        else (Inl NotFound, w)),
      DownloadFile = (\<lambda>path w. (Inl NotFound, w)),
      UploadFile = (\<lambda>path content sz w.
        if path \<in> set (broken w) then (Some RemoteUnavailable, w)
        else (None, w\<lparr>existing := path # existing w\<rparr>)),
      CreateFolder = (\<lambda>path w.
        if path \<in> set (broken w) then (Some RemoteUnavailable, w)
        else if path \<in> set (existing w) \<or> path \<in> set (racing w) then (Some AlreadyExists, w)
        else (None, w\<lparr>existing := path # existing w\<rparr>)),
      GetFileInfo = (\<lambda>path w.
        if path \<in> set (existing w) then (Inr (demoInfo path), w)
        else (Inl NotFound, w))\<rparr>"

definition demoNextcloud :: "demoWorld cloudClient" where
  "demoNextcloud =
     \<lparr>ListFiles = (\<lambda>path w.
        if path \<in> set (broken w) then (Inl RemoteUnavailable, w)
        else (Inr (if path = ''/docs'' then [demoInfo ''/docs/a.txt''] else []), w)),
      DownloadFile = (\<lambda>path w.
        if path \<in> set (broken w) then (Inl RemoteUnavailable, w) else (Inr ''data'', w)),
      UploadFile = (\<lambda>path content sz w. (Some RemoteUnavailable, w)),
      CreateFolder = (\<lambda>path w. (Some RemoteUnavailable, w)),
      GetFileInfo = (\<lambda>path w.
        if path \<in> set (broken w) then (Inl RemoteUnavailable, w)
        else (Inr (demoInfo path), w))\<rparr>"

definition demoProcessor :: "demoWorld Processor" where
  "demoProcessor = \<lparr>yandexClient = demoYandex, nextcloudClient = demoNextcloud\<rparr>"

definition demoState :: "string list \<Rightarrow> string list \<Rightarrow> string list \<Rightarrow> demoWorld pstate" where
  "demoState ex ra br =
     \<lparr>world = \<lparr>existing = ex, racing = ra, broken = br\<rparr>, calls = [], stats = zeroStats\<rparr>"

section \<open>Auxiliary lemmas\<close>

subsection \<open>The counters\<close>

lemma statsGrow_refl: "statsGrow a a"
  by (simp add: statsGrow_def)

lemma statsGrow_trans: "statsGrow a b \<Longrightarrow> statsGrow b c \<Longrightarrow> statsGrow a c"
  by (auto simp: statsGrow_def)

lemma stats_call [simp]:
  "stats (snd (callListFiles r c path s)) = stats s"
  "stats (snd (callDownloadFile r c path s)) = stats s"
  "stats (snd (callUploadFile r c path content sz s)) = stats s"
  "stats (snd (callCreateFolder r c path s)) = stats s"
  "stats (snd (callGetFileInfo r c path s)) = stats s"
  "stats (closeReader r path s) = stats s"
  by (simp_all add: callListFiles_def callDownloadFile_def callUploadFile_def
        callCreateFolder_def callGetFileInfo_def closeReader_def split: prod.splits)

lemma stats_callD:
  "callListFiles r c path s = (res1, s1) \<Longrightarrow> stats s1 = stats s"
  "callDownloadFile r c path s = (res2, s2) \<Longrightarrow> stats s2 = stats s"
  "callUploadFile r c path content sz s = (res3, s3) \<Longrightarrow> stats s3 = stats s"
  "callCreateFolder r c path s = (res4, s4) \<Longrightarrow> stats s4 = stats s"
  "callGetFileInfo r c path s = (res5, s5) \<Longrightarrow> stats s5 = stats s"
  using stats_call(1) [of r c path s] stats_call(2) [of r c path s]
    stats_call(3) [of r c path content sz s] stats_call(4) [of r c path s]
    stats_call(5) [of r c path s]
  by simp_all

subsection \<open>The cases of \<open>createFolderChain\<close>\<close>

lemma createFolderChain_empty:
  "normalizePath folderPath = [] \<Longrightarrow> createFolderChain p folderPath s = (None, s)"
  by (subst createFolderChain.simps) (simp add: normalizePath_def)

lemma createFolderChain_exists:
  "normalizePath folderPath \<noteq> [] \<Longrightarrow>
   callGetFileInfo Yandex (yandexClient p) (normalizePath folderPath) s = (Inr info, s1) \<Longrightarrow>
   createFolderChain p folderPath s = (None, s1)"
  by (subst createFolderChain.simps) (simp add: normalizePath_def)

lemma createFolderChain_missing:
  "normalizePath folderPath \<noteq> [] \<Longrightarrow>
   callGetFileInfo Yandex (yandexClient p) (normalizePath folderPath) s = (Inl err, s1) \<Longrightarrow>
   createFolderChain p folderPath s =
     (case createParent p (normalizePath folderPath) s1 of
        (Some createErr, s2) \<Rightarrow> (Some (FailedCreateParent (Dir (normalizePath folderPath)) createErr), s2)
      | (None, s2) \<Rightarrow>
          (case callCreateFolder Yandex (yandexClient p) (normalizePath folderPath) s2 of
             (Some err', s3) \<Rightarrow> (Some (FailedCreateFolder (normalizePath folderPath) err'), s3)
           | (None, s3) \<Rightarrow> (None, s3)))"
  unfolding normalizePath_def createParent_def recurses_def
  by (subst createFolderChain.simps) (simp add: Let_def)

lemma createFolderChain_induct [consumes 0, case_names chain]:
  fixes p :: "'w Processor"
  assumes "\<And>(p :: 'w Processor) folderPath s.
     (\<And>err s1. normalizePath folderPath \<noteq> [] \<Longrightarrow>
        callGetFileInfo Yandex (yandexClient p) (normalizePath folderPath) s = (Inl err, s1) \<Longrightarrow>
        recurses (normalizePath folderPath) \<Longrightarrow> P p (Dir (normalizePath folderPath)) s1)
     \<Longrightarrow> P p folderPath s"
  shows "P p folderPath s"
proof (induction p folderPath s rule: createFolderChain.induct)
  case (1 p folderPath s)
  show ?case
  proof (rule assms)
    fix err s1
    assume "normalizePath folderPath \<noteq> []"
      and "callGetFileInfo Yandex (yandexClient p) (normalizePath folderPath) s = (Inl err, s1)"
      and "recurses (normalizePath folderPath)"
    then show "P p (Dir (normalizePath folderPath)) s1"
      using "1.IH" [of "normalizePath folderPath" "Inl err" s1 err "Dir (normalizePath folderPath)"]
      by (simp add: normalizePath_def recurses_def)
  qed
qed

lemma stats_createFolderChain: "stats (snd (createFolderChain p folderPath s)) = stats s"
proof (induction p folderPath s rule: createFolderChain_induct)
  case (chain p folderPath s)
  let ?fp = "normalizePath folderPath"
  show ?case
  proof (cases "?fp = []")
    case True
    then show ?thesis by (simp add: createFolderChain_empty)
  next
    case False
    obtain res s1 where gi: "callGetFileInfo Yandex (yandexClient p) ?fp s = (res, s1)"
      by fastforce
    have s1: "stats s1 = stats s" using gi by (rule stats_callD)
    show ?thesis
    proof (cases res)
      case (Inr info)
      then show ?thesis using False gi s1 by (simp add: createFolderChain_exists)
    next
      case (Inl err)
      obtain r s2 where cp: "createParent p ?fp s1 = (r, s2)"
        by fastforce
      have s2: "stats s2 = stats s1"
        using chain [OF False gi [unfolded Inl]] cp by (auto simp: createParent_def split: if_splits)
      obtain r' s3 where cf: "callCreateFolder Yandex (yandexClient p) ?fp s2 = (r', s3)"
        by fastforce
      have s3: "stats s3 = stats s2" using cf by (rule stats_callD)
      show ?thesis
        using s1 s2 s3 cp cf
        by (simp add: createFolderChain_missing [OF False gi [unfolded Inl]]
              split: option.splits)
    qed
  qed
qed

lemma stats_createFolderChainD:
  "createFolderChain p folderPath s = (r, s1) \<Longrightarrow> stats s1 = stats s"
  using stats_createFolderChain [of p folderPath s] by simp

lemma calls_callD:
  "callGetFileInfo r c path s = (res, s1) \<Longrightarrow>
     calls s1 = calls s @ [Event r GetFileInfoCall path (\<not> isl res)]"
  "callCreateFolder r c path s = (res', s2) \<Longrightarrow>
     calls s2 = calls s @ [Event r CreateFolderCall path (res' = None)]"
  by (auto simp: callGetFileInfo_def callCreateFolder_def split: prod.splits)

lemma mkdirsAfterFailedLookup_append:
  "mkdirsAfterFailedLookup seen (xs @ ys)
   \<longleftrightarrow> mkdirsAfterFailedLookup seen xs \<and> mkdirsAfterFailedLookup (seen @ xs) ys"
  by (induction xs arbitrary: seen) auto

lemma mkdirsAfterFailedLookup_mono:
  "mkdirsAfterFailedLookup seen xs \<Longrightarrow> set seen \<subseteq> set seen' \<Longrightarrow>
   mkdirsAfterFailedLookup seen' xs"
proof (induction xs arbitrary: seen seen')
  case Nil
  show ?case by simp
next
  case (Cons e es)
  have "mkdirsAfterFailedLookup (seen' @ [e]) es"
    using Cons.IH [of "seen @ [e]" "seen' @ [e]"] Cons.prems by auto
  then show ?case
    using Cons.prems by auto
qed

lemma calls_createFolderChain:
  fixes p :: "'w Processor"
  shows "\<exists>new. calls (snd (createFolderChain p folderPath s)) = calls s @ new
               \<and> mkdirsAfterFailedLookup [] new"
proof (induction p folderPath s rule: createFolderChain_induct)
  case (chain p folderPath s)
  let ?fp = "normalizePath folderPath"
  show ?case
  proof (cases "?fp = []")
    case True
    then show ?thesis by (simp add: createFolderChain_empty)
  next
    case False
    obtain res s1 where gi: "callGetFileInfo Yandex (yandexClient p) ?fp s = (res, s1)"
      by fastforce
    have s1: "calls s1 = calls s @ [Event Yandex GetFileInfoCall ?fp (\<not> isl res)]"
      using gi by (rule calls_callD)
    show ?thesis
    proof (cases res)
      case (Inr info)
      then show ?thesis
        using False gi s1 by (simp add: createFolderChain_exists)
    next
      case (Inl err)
      obtain r s2 where cp: "createParent p ?fp s1 = (r, s2)"
        by fastforce
      obtain newp where s2: "calls s2 = calls s1 @ newp" and ok: "mkdirsAfterFailedLookup [] newp"
      proof (cases "recurses ?fp")
        case True
        then show ?thesis
          using chain [OF False gi [unfolded Inl] True] cp that by (auto simp: createParent_def)
      next
        case nr: False
        then have "calls s2 = calls s1 @ []" using cp by (simp add: createParent_def)
        then show ?thesis using that by simp
      qed
      have ok': "mkdirsAfterFailedLookup [Event Yandex GetFileInfoCall ?fp False] newp"
        using mkdirsAfterFailedLookup_mono [OF ok] by simp
      show ?thesis
      proof (cases r)
        case (Some createErr)
        then have "createFolderChain p folderPath s
                   = (Some (FailedCreateParent (Dir ?fp) createErr), s2)"
          using cp by (simp add: createFolderChain_missing [OF False gi [unfolded Inl]])
        moreover have "calls s2 = calls s @ (Event Yandex GetFileInfoCall ?fp False # newp)"
          using s1 s2 Inl by simp
        moreover have "mkdirsAfterFailedLookup [] (Event Yandex GetFileInfoCall ?fp False # newp)"
          using ok' by simp
        ultimately show ?thesis by (metis snd_conv)
      next
        case None
        obtain r' s3 where cf: "callCreateFolder Yandex (yandexClient p) ?fp s2 = (r', s3)"
          by fastforce
        have s3: "calls s3 = calls s2 @ [Event Yandex CreateFolderCall ?fp (r' = None)]"
          using cf by (rule calls_callD)
        have "snd (createFolderChain p folderPath s) = s3"
          using cp None cf
          by (simp add: createFolderChain_missing [OF False gi [unfolded Inl]] split: option.splits)
        moreover have "calls s3 = calls s @ (Event Yandex GetFileInfoCall ?fp False # newp
                                    @ [Event Yandex CreateFolderCall ?fp (r' = None)])"
          using s1 s2 s3 Inl by simp
        moreover have "mkdirsAfterFailedLookup []
                         (Event Yandex GetFileInfoCall ?fp False # newp
                            @ [Event Yandex CreateFolderCall ?fp (r' = None)])"
          using ok' by (simp add: mkdirsAfterFailedLookup_append)
        ultimately show ?thesis by metis
      qed
    qed
  qed
qed

lemma world_callD:
  "callGetFileInfo r c path s = (res, s1) \<Longrightarrow> GetFileInfo c path (world s) = (res, world s1)"
  "callCreateFolder r c path s = (res', s2) \<Longrightarrow> CreateFolder c path (world s) = (res', world s2)"
  by (auto simp: callGetFileInfo_def callCreateFolder_def split: prod.splits)

lemma callGetFileInfo_resolves:
  "GetFileInfo c path (world s) = (Inr info, w) \<Longrightarrow>
   \<exists>s1. callGetFileInfo r c path s = (Inr info, s1)"
  by (simp add: callGetFileInfo_def)

lemma createFolderChain_again:
  fixes p :: "'w Processor"
  assumes stable: "lookupStable (yandexClient p)"
    and first: "createFolderChain p folderPath s = (None, s1)"
  shows "fst (createFolderChain p folderPath s1) = None
         \<and> (\<forall>e\<in>set (drop (length (calls s1)) (calls (snd (createFolderChain p folderPath s1)))).
               ev_op e \<noteq> CreateFolderCall)"
proof (cases "normalizePath folderPath = []")
  case True
  then show ?thesis by (simp add: createFolderChain_empty)
next
  case False
  let ?fp = "normalizePath folderPath"
  let ?c = "yandexClient p"
  obtain res t1 where gi: "callGetFileInfo Yandex ?c ?fp s = (res, t1)"
    by fastforce
  have "\<exists>info w. GetFileInfo ?c ?fp (world s1) = (Inr info, w)"
  proof (cases res)
    case (Inr info)
    then have "s1 = t1"
      using first False gi by (simp add: createFolderChain_exists)
    moreover have "GetFileInfo ?c ?fp (world s) = (Inr info, world t1)"
      using gi Inr world_callD(1) by fastforce
    ultimately show ?thesis
      using stable unfolding lookupStable_def by blast
  next
    case (Inl err)
    obtain r s2 where cp: "createParent p ?fp t1 = (r, s2)"
      by fastforce
    obtain r' s3 where mk: "callCreateFolder Yandex ?c ?fp s2 = (r', s3)"
      by fastforce
    have "r = None \<and> r' = None \<and> s1 = s3"
      using first cp mk
      by (auto simp: createFolderChain_missing [OF False gi [unfolded Inl]] split: option.splits)
    then have "CreateFolder ?c ?fp (world s2) = (None, world s1)"
      using mk world_callD(2) by fastforce
    then show ?thesis
      using stable unfolding lookupStable_def by blast
  qed
  then obtain info s2 where again: "callGetFileInfo Yandex ?c ?fp s1 = (Inr info, s2)"
    using callGetFileInfo_resolves by fastforce
  have "createFolderChain p folderPath s1 = (None, s2)"
    using False again by (rule createFolderChain_exists)
  moreover have "calls s2 = calls s1 @ [Event Yandex GetFileInfoCall ?fp True]"
    using calls_callD(1) [OF again] by simp
  ultimately show ?thesis by simp
qed

subsection \<open>The counters through the reconciler\<close>

lemma stats_syncFile: "stats (snd (syncFile p ncFilePath yandexBasePath fileName s)) = stats s"
  by (auto simp: syncFile_def Let_def split: prod.splits sum.splits option.splits dest!: stats_callD)

lemma stats_syncFileD:
  "syncFile p ncFilePath yandexBasePath fileName s = (r, s1) \<Longrightarrow> stats s1 = stats s"
  using stats_syncFile [of p ncFilePath yandexBasePath fileName s] by simp

lemma stats_syncFileEntry:
  "stats (syncFileEntry p yandexFiles yandexBasePath ncFile s) =
     (if needsSync yandexFiles ncFile then
        (if fst (syncFile p (File_Path ncFile) yandexBasePath (Base (File_Path ncFile)) (addTotal s)) = None
         then (stats s)\<lparr>TotalFiles := TotalFiles (stats s) + 1,
                        UploadedFiles := UploadedFiles (stats s) + 1\<rparr>
         else (stats s)\<lparr>TotalFiles := TotalFiles (stats s) + 1,
                        ErrorFiles := ErrorFiles (stats s) + 1\<rparr>)
      else (stats s)\<lparr>TotalFiles := TotalFiles (stats s) + 1,
                      SkippedFiles := SkippedFiles (stats s) + 1\<rparr>)"
  by (auto simp: syncFileEntry_def Let_def addTotal_def addError_def addUploaded_def addSkipped_def
        split: prod.splits option.splits dest!: stats_syncFileD)

lemma statsGrow_syncFileEntry:
  "statsGrow (stats s) (stats (syncFileEntry p yandexFiles yandexBasePath ncFile s))"
  by (simp add: stats_syncFileEntry statsGrow_def)

lemma TotalFiles_syncFileEntry:
  "TotalFiles (stats (syncFileEntry p yandexFiles yandexBasePath ncFile s)) = TotalFiles (stats s) + 1"
  by (simp add: stats_syncFileEntry)

lemma statsGrow_syncFiles:
  "statsGrow (stats s) (stats (syncFiles p yandexFiles yandexBasePath files s))"
proof (induction files arbitrary: s)
  case Nil
  show ?case by (simp add: statsGrow_refl)
next
  case (Cons f files)
  show ?case
    using statsGrow_trans [OF statsGrow_syncFileEntry Cons.IH] by simp
qed

lemma TotalFiles_syncFiles:
  "TotalFiles (stats (syncFiles p yandexFiles yandexBasePath files s))
   = TotalFiles (stats s) + int (length files)"
  by (induction files arbitrary: s) (simp_all add: TotalFiles_syncFileEntry)

lemma syncFolders_None: "fst (syncFolders p ncFolder yandexFolder yandexBasePath s) = None"
  by (cases ncFolder) (simp add: Let_def)

lemma statsGrow_syncFolders:
  fixes p :: "'w Processor"
  shows "statsGrow (stats s) (stats (snd (syncFolders p ncFolder yandexFolder yandexBasePath s)))"
    and "statsGrow (stats s) (stats (syncSubFolders p yandexFolders yandexBasePath ncFolders s))"
proof (induction p ncFolder yandexFolder yandexBasePath s
          and p yandexFolders yandexBasePath ncFolders s
       rule: syncFolders_syncSubFolders.induct)
  case (1 p ncPath ncModified ncFiles ncFolders yandexFolder yandexBasePath s)
  show ?case
    using statsGrow_trans [OF statsGrow_syncFiles "1.IH" [OF refl refl refl]]
    by (simp add: Let_def)
next
  case (2 p yandexFolders yandexBasePath s)
  show ?case by (simp add: statsGrow_refl)
next
  case (3 p yandexFolders yandexBasePath ncSubFolder rest s)
  let ?name = "decodeName (Base (Folder_Path ncSubFolder))"
  let ?path = "yandexBasePath @ ''/'' @ ?name"
  show ?case
  proof (cases "yandexFolders ?name")
    case (Some yandexSubFolder)
    obtain err s2 where sf: "syncFolders p ncSubFolder yandexSubFolder ?path s = (err, s2)"
      by fastforce
    have "statsGrow (stats s) (stats s2)"
      using "3.IH"(4) [OF refl refl refl Some] sf by simp
    moreover have "statsGrow (stats s2) (stats (syncSubFolders p yandexFolders yandexBasePath rest s2))"
      using "3.IH"(5) [OF refl refl refl Some sf [symmetric]] .
    ultimately show ?thesis
      using Some sf by (simp add: Let_def statsGrow_trans)
  next
    case None
    obtain r s1 where cf: "createFolderChain p ?path s = (r, s1)"
      by fastforce
    have s1: "stats s1 = stats s" using cf by (rule stats_createFolderChainD)
    show ?thesis
    proof (cases r)
      case (Some e)
      have "statsGrow (stats s1) (stats (syncSubFolders p yandexFolders yandexBasePath rest s1))"
        using "3.IH"(3) [OF refl refl refl None cf [symmetric] Some] .
      then show ?thesis
        using None cf Some s1 by (simp add: Let_def)
    next
      case rNone: None
      obtain err s2 where sf: "syncFolders p ncSubFolder (emptyFolder ?path) ?path s1 = (err, s2)"
        by fastforce
      have "statsGrow (stats s1) (stats s2)"
        using "3.IH"(1) [OF refl refl refl None cf [symmetric] rNone] sf by simp
      moreover have "statsGrow (stats s2) (stats (syncSubFolders p yandexFolders yandexBasePath rest s2))"
        using "3.IH"(2) [OF refl refl refl None cf [symmetric] rNone sf [symmetric]] .
      ultimately show ?thesis
        using None cf rNone s1 sf by (simp add: Let_def statsGrow_trans)
    qed
  qed
qed

subsection \<open>The lookup table of destination files\<close>

lemma foldl_upd_map_of:
  "foldl (\<lambda>m x. m(key x \<mapsto> x)) m0 xs = m0 ++ map_of (rev (map (\<lambda>x. (key x, x)) xs))"
proof (induction xs arbitrary: m0)
  case Nil
  show ?case by simp
next
  case (Cons x xs)
  have "foldl (\<lambda>m x. m(key x \<mapsto> x)) m0 (x # xs)
        = foldl (\<lambda>m x. m(key x \<mapsto> x)) (m0(key x \<mapsto> x)) xs"
    by (simp only: foldl_Cons)
  also have "\<dots> = m0(key x \<mapsto> x) ++ map_of (rev (map (\<lambda>x. (key x, x)) xs))"
    by (rule Cons.IH)
  also have "\<dots> = m0 ++ map_of (rev (map (\<lambda>x. (key x, x)) (x # xs)))"
    by (auto simp: fun_eq_iff map_add_def split: option.splits)
  finally show ?case .
qed

lemma yandexFilesMap_map_of:
  "yandexFilesMap files = map_of (rev (map (\<lambda>f. (Base (File_Path f), f)) files))"
  by (simp add: yandexFilesMap_def foldl_upd_map_of)

lemma yandexFilesMap_None:
  "yandexFilesMap files k = None \<longleftrightarrow> (\<forall>f\<in>set files. Base (File_Path f) \<noteq> k)"
  by (auto simp: yandexFilesMap_map_of map_of_eq_None_iff image_iff)

lemma yandexFilesMap_SomeD:
  "yandexFilesMap files k = Some f \<Longrightarrow> f \<in> set files \<and> Base (File_Path f) = k"
  by (auto simp: yandexFilesMap_map_of dest!: map_of_SomeD)

lemma yandexFilesMap_distinct:
  assumes "distinct (map (\<lambda>f. Base (File_Path f)) files)" and "f \<in> set files"
  shows "yandexFilesMap files (Base (File_Path f)) = Some f"
proof -
  have "distinct (map fst (rev (map (\<lambda>f. (Base (File_Path f), f)) files)))"
    using assms(1) by (simp add: rev_map [symmetric] comp_def)
  moreover have "(Base (File_Path f), f) \<in> set (rev (map (\<lambda>f. (Base (File_Path f), f)) files))"
    using assms(2) by auto
  ultimately show ?thesis
    unfolding yandexFilesMap_map_of by (rule map_of_is_SomeI)
qed

subsection \<open>Decoding\<close>

lemma hasEscape_Cons: "hasEscape cs \<Longrightarrow> hasEscape (c # cs)"
  by (cases cs rule: hasEscape.cases) auto

lemma unescapeScan_plain:
  "\<not> hasEscape s \<Longrightarrow> CHR ''+'' \<notin> set s \<Longrightarrow>
     (\<exists>e. unescapeScan s n h = Inl e) \<or> unescapeScan s n h = Inr (n, h)"
proof (induction s n h rule: unescapeScan.induct)
  case (1 n hasPlus)
  show ?case by simp
next
  case (2 c cs n hasPlus)
  show ?case
  proof (cases "c = CHR ''%''")
    case True
    then show ?thesis
      using "2.prems"(1) by (auto split: list.splits)
  next
    case False
    moreover have "\<not> hasEscape cs"
      using "2.prems"(1) hasEscape_Cons by blast
    ultimately show ?thesis
      using "2.IH"(3) "2.prems"(2) by auto
  qed
qed

lemma decodeName_plain: "\<not> hasEscape s \<Longrightarrow> CHR ''+'' \<notin> set s \<Longrightarrow> decodeName s = s"
  using unescapeScan_plain [of s 0 False]
  by (auto simp: decodeName_def QueryUnescape_def)

subsection \<open>Snapshots and the loop of \<open>Main\<close>\<close>

lemma Folder_Path_getFileSystem:
  fixes c :: "'w cloudClient"
  shows "getFileSystem fuel r c rootPath s = Some (Inr folder, s') \<Longrightarrow> Folder_Path folder = rootPath"
    and "getEntries fuel r c files acc s = Some (Inr folder, s') \<Longrightarrow> Folder_Path folder = Folder_Path acc"
proof (induction fuel r c rootPath s and fuel r c files acc s arbitrary: folder s' and folder s'
       rule: getFileSystem_getEntries.induct)
  case (1 r c rootPath s)
  then show ?case by simp
next
  case (2 fuel r c rootPath s)
  obtain res s1 where lf: "callListFiles r c rootPath s = (res, s1)" by fastforce
  show ?case
  proof (cases res)
    case (Inl e)
    then show ?thesis using "2.prems" lf by simp
  next
    case (Inr files)
    then have "getEntries fuel r c files (emptyFolder rootPath) s1 = Some (Inr folder, s')"
      using "2.prems" lf by simp
    then have "Folder_Path folder = Folder_Path (emptyFolder rootPath)"
      using "2.IH" [OF lf [symmetric] Inr] by simp
    then show ?thesis by (simp add: emptyFolder_def)
  qed
next
  case (3 fuel r c folder s)
  then show ?case by simp
next
  case (4 fuel r c entry files acc s)
  show ?case
  proof (cases "IsDir entry")
    case True
    then obtain sub s1 where
      gf: "getFileSystem fuel r c (Path entry) s = Some (Inr sub, s1)"
      and ge: "getEntries fuel r c files
                 (Folder (Folder_Path acc) (Folder_Modified acc) (Files acc) (Folders acc @ [sub])) s1
               = Some (Inr folder, s')"
      using "4.prems" by (auto split: option.splits sum.splits prod.splits)
    show ?thesis
      using "4.IH"(2) [OF True gf refl refl ge] by simp
  next
    case False
    then show ?thesis
      using "4.prems" "4.IH"(3) [OF False] by simp
  qed
qed

lemma processSyncPath_total:
  fixes p :: "'w Processor"
  assumes "\<forall>path t. getYandexFileSystem fuel p path t \<noteq> None
                   \<and> getNextcloudFileSystem fuel p path t \<noteq> None"
  shows "processSyncPath fuel p cfg yndxFs syncPath s \<noteq> None"
proof -
  obtain r1 s1 where n: "getNextcloudFileSystem fuel p syncPath s = Some (r1, s1)"
    using assms by (metis not_None_eq prod.collapse)
  obtain r2 s2 where y: "getYandexFileSystem fuel p (syncTargetPath cfg syncPath) s1 = Some (r2, s2)"
    using assms by (metis not_None_eq prod.collapse)
  show ?thesis
    using n y
    by (auto simp: processSyncPath_def Let_def split: sum.splits prod.splits option.splits)
qed

lemma processSyncPaths_total:
  fixes p :: "'w Processor"
  assumes "\<forall>path t. getYandexFileSystem fuel p path t \<noteq> None
                   \<and> getNextcloudFileSystem fuel p path t \<noteq> None"
  shows "processSyncPaths fuel p cfg yndxFs syncPaths s \<noteq> None"
proof (induction syncPaths arbitrary: s)
  case Nil
  show ?case by simp
next
  case (Cons syncPath rest)
  obtain s1 where "processSyncPath fuel p cfg yndxFs syncPath s = Some s1"
    using processSyncPath_total [OF assms] by blast
  then show ?case
    using Cons.IH by simp
qed

section \<open>C1: needs-sync classification\<close>

text \<open>
  Claim C1.  For every source file that \<open>syncFolders\<close> processes, with \<open>decoded\<close> the
  decoded base name of the file and \<open>yandexFiles\<close> the lookup table built from the
  destination folder: the file is classified as needing sync if and only if no
  destination file has that base name, or the table's entry for it has a modification
  time strictly before the source's.  The entry the table holds is a destination file
  of that base name (the only one when base names are distinct).  A file that does not
  need sync is skipped: the total and skipped counters are incremented and nothing else
  happens, in particular when the timestamps are equal.  A file that needs sync is
  handed to \<open>syncFile\<close> and the skipped counter stays as it is.
\<close>

theorem needsSync_classification:
  fixes p :: "'w Processor"
  shows
  "let decoded = decodeName (Base (File_Path ncFile));
       yandexFiles = yandexFilesMap (Files yandexFolder)
   in (needsSync yandexFiles ncFile \<longleftrightarrow>
         (\<forall>f\<in>set (Files yandexFolder). Base (File_Path f) \<noteq> decoded)
         \<or> (\<exists>f. yandexFiles decoded = Some f \<and> File_Modified f < File_Modified ncFile))
      \<and> (\<forall>f. yandexFiles decoded = Some f \<longrightarrow>
             f \<in> set (Files yandexFolder) \<and> Base (File_Path f) = decoded)
      \<and> (distinct (map (\<lambda>f. Base (File_Path f)) (Files yandexFolder)) \<longrightarrow>
           (\<forall>f\<in>set (Files yandexFolder).
              Base (File_Path f) = decoded \<longrightarrow> yandexFiles decoded = Some f))
      \<and> (\<not> needsSync yandexFiles ncFile \<longrightarrow>
           syncFileEntry p yandexFiles yandexBasePath ncFile s = addSkipped (addTotal s))
      \<and> (needsSync yandexFiles ncFile \<longrightarrow>
           SkippedFiles (stats (syncFileEntry p yandexFiles yandexBasePath ncFile s))
             = SkippedFiles (stats s)
           \<and> (\<exists>r s1. syncFile p (File_Path ncFile) yandexBasePath (Base (File_Path ncFile))
                         (addTotal s) = (r, s1)
                 \<and> syncFileEntry p yandexFiles yandexBasePath ncFile s
                     = (if r = None then addUploaded s1 else addError s1)))"
proof -
  define decoded where "decoded = decodeName (Base (File_Path ncFile))"
  define yandexFiles where "yandexFiles = yandexFilesMap (Files yandexFolder)"
  have cls: "needsSync yandexFiles ncFile \<longleftrightarrow>
         (\<forall>f\<in>set (Files yandexFolder). Base (File_Path f) \<noteq> decoded)
         \<or> (\<exists>f. yandexFiles decoded = Some f \<and> File_Modified f < File_Modified ncFile)"
  proof (cases "yandexFiles decoded")
    case None
    then show ?thesis
      using yandexFilesMap_None [of "Files yandexFolder" decoded]
      by (simp add: needsSync_def decoded_def yandexFiles_def)
  next
    case (Some f)
    then have "\<not> (\<forall>f\<in>set (Files yandexFolder). Base (File_Path f) \<noteq> decoded)"
      using yandexFilesMap_None [of "Files yandexFolder" decoded] by (simp add: yandexFiles_def)
    moreover have "needsSync yandexFiles ncFile \<longleftrightarrow> File_Modified f < File_Modified ncFile"
      using Some by (simp add: needsSync_def decoded_def [symmetric] After_def)
    ultimately show ?thesis
      using Some by auto
  qed
  have mem: "\<forall>f. yandexFiles decoded = Some f \<longrightarrow>
             f \<in> set (Files yandexFolder) \<and> Base (File_Path f) = decoded"
    using yandexFilesMap_SomeD by (auto simp: yandexFiles_def)
  have uniq: "distinct (map (\<lambda>f. Base (File_Path f)) (Files yandexFolder)) \<longrightarrow>
           (\<forall>f\<in>set (Files yandexFolder).
              Base (File_Path f) = decoded \<longrightarrow> yandexFiles decoded = Some f)"
    using yandexFilesMap_distinct by (auto simp: yandexFiles_def)
  have skip: "\<not> needsSync yandexFiles ncFile \<longrightarrow>
           syncFileEntry p yandexFiles yandexBasePath ncFile s = addSkipped (addTotal s)"
    by (simp add: syncFileEntry_def Let_def)
  have sync1: "needsSync yandexFiles ncFile \<longrightarrow>
           SkippedFiles (stats (syncFileEntry p yandexFiles yandexBasePath ncFile s))
             = SkippedFiles (stats s)"
    by (simp add: stats_syncFileEntry)
  have sync2: "needsSync yandexFiles ncFile \<longrightarrow>
           (\<exists>r s1. syncFile p (File_Path ncFile) yandexBasePath (Base (File_Path ncFile))
                         (addTotal s) = (r, s1)
                 \<and> syncFileEntry p yandexFiles yandexBasePath ncFile s
                     = (if r = None then addUploaded s1 else addError s1))"
    by (auto simp: syncFileEntry_def Let_def split: prod.splits option.splits)
  show ?thesis
    unfolding Let_def decoded_def [symmetric] yandexFiles_def [symmetric]
    using cls mem uniq skip sync1 sync2 by blast
qed

theorem needsSync_classification_witness:
  "\<not> needsSync (yandexFilesMap [File ''disk:/dst/a.txt'' 7]) (File ''/src/a.txt'' 7)
   \<and> syncFileEntry demoProcessor (yandexFilesMap [File ''disk:/dst/a.txt'' 7]) ''/dst''
        (File ''/src/a.txt'' 7) (demoState [] [] [])
      = addSkipped (addTotal (demoState [] [] []))
   \<and> needsSync (yandexFilesMap [File ''disk:/dst/a.txt'' 7]) (File ''/src/a.txt'' 8)
   \<and> needsSync (yandexFilesMap [File ''disk:/dst/b.txt'' 9]) (File ''/src/a.txt'' 8)"
proof -
  have a: "\<not> needsSync (yandexFilesMap [File ''disk:/dst/a.txt'' 7]) (File ''/src/a.txt'' 7)"
    by code_simp
  have b: "(\<exists>f. yandexFilesMap [File ''disk:/dst/a.txt'' 7] (decodeName (Base ''/src/a.txt'')) = Some f
              \<and> File_Modified f < 8)"
    by (rule exI [of _ "File ''disk:/dst/a.txt'' 7"]) code_simp
  have c: "\<forall>f\<in>set [File ''disk:/dst/b.txt'' 9]. Base (File_Path f) \<noteq> decodeName (Base ''/src/a.txt'')"
    by code_simp
  show ?thesis
    using a b c
      needsSync_classification [of "File ''/src/a.txt'' 7" "Folder ''/dst'' 0 [File ''disk:/dst/a.txt'' 7] []"
        demoProcessor "''/dst''" "demoState [] [] []"]
      needsSync_classification [of "File ''/src/a.txt'' 8" "Folder ''/dst'' 0 [File ''disk:/dst/a.txt'' 7] []"
        demoProcessor "''/dst''" "demoState [] [] []"]
      needsSync_classification [of "File ''/src/a.txt'' 8" "Folder ''/dst'' 0 [File ''disk:/dst/b.txt'' 9] []"
        demoProcessor "''/dst''" "demoState [] [] []"]
    by (simp add: Let_def)
qed

section \<open>C2: partial failures stay local\<close>

text \<open>
  Claim C2.  \<open>syncFolders\<close> returns no error, whatever the two trees and whatever the
  remotes do.  When the transfer of a file fails, the error counter is incremented and
  the loop goes on with the remaining files from the state the failed transfer left;
  every file of the folder is counted in the total.  When the destination has no
  subfolder of the decoded name and the chain creation for it fails, the statistics are
  as before the attempt and the loop goes on with the remaining subfolders; the files
  of the folder itself are counted in the total whatever happens to its subfolders.
\<close>

theorem syncFolders_partial_failure:
  fixes p :: "'w Processor"
  shows
  "fst (syncFolders p ncFolder yandexFolder yandexBasePath s) = None
   \<and> (\<forall>err s1. needsSync yandexFiles ncFile
         \<and> syncFile p (File_Path ncFile) yandexBasePath (Base (File_Path ncFile)) (addTotal s)
             = (Some err, s1) \<longrightarrow>
         syncFiles p yandexFiles yandexBasePath (ncFile # files) s
           = syncFiles p yandexFiles yandexBasePath files (addError s1)
         \<and> stats (addError s1)
             = (stats s)\<lparr>TotalFiles := TotalFiles (stats s) + 1,
                         ErrorFiles := ErrorFiles (stats s) + 1\<rparr>)
   \<and> TotalFiles (stats (syncFiles p yandexFiles yandexBasePath files s))
       = TotalFiles (stats s) + int (length files)
   \<and> (\<forall>err s1. yandexFolders (decodeName (Base (Folder_Path ncSubFolder))) = None
         \<and> createFolderChain p
              (yandexBasePath @ ''/'' @ decodeName (Base (Folder_Path ncSubFolder))) s
             = (Some err, s1) \<longrightarrow>
         syncSubFolders p yandexFolders yandexBasePath (ncSubFolder # ncFolders) s
           = syncSubFolders p yandexFolders yandexBasePath ncFolders s1
         \<and> stats s1 = stats s)
   \<and> TotalFiles (stats s) + int (length (Files ncFolder))
       \<le> TotalFiles (stats (snd (syncFolders p ncFolder yandexFolder yandexBasePath s)))"
proof -
  have fileStep: "\<forall>err s1. needsSync yandexFiles ncFile
         \<and> syncFile p (File_Path ncFile) yandexBasePath (Base (File_Path ncFile)) (addTotal s)
             = (Some err, s1) \<longrightarrow>
         syncFiles p yandexFiles yandexBasePath (ncFile # files) s
           = syncFiles p yandexFiles yandexBasePath files (addError s1)
         \<and> stats (addError s1)
             = (stats s)\<lparr>TotalFiles := TotalFiles (stats s) + 1,
                         ErrorFiles := ErrorFiles (stats s) + 1\<rparr>"
    by (auto simp: syncFileEntry_def Let_def addError_def addTotal_def dest!: stats_syncFileD)
  have sub: "\<forall>err s1. yandexFolders (decodeName (Base (Folder_Path ncSubFolder))) = None
         \<and> createFolderChain p
              (yandexBasePath @ ''/'' @ decodeName (Base (Folder_Path ncSubFolder))) s
             = (Some err, s1) \<longrightarrow>
         syncSubFolders p yandexFolders yandexBasePath (ncSubFolder # ncFolders) s
           = syncSubFolders p yandexFolders yandexBasePath ncFolders s1
         \<and> stats s1 = stats s"
    by (auto simp: Let_def dest: stats_createFolderChainD)
  have level: "TotalFiles (stats s) + int (length (Files ncFolder))
       \<le> TotalFiles (stats (snd (syncFolders p ncFolder yandexFolder yandexBasePath s)))"
  proof (cases ncFolder)
    case (Folder ncPath ncModified ncFiles ncFolders)
    let ?s1 = "syncFiles p (yandexFilesMap (Files yandexFolder)) yandexBasePath ncFiles s"
    have "TotalFiles (stats ?s1)
          \<le> TotalFiles (stats (syncSubFolders p (yandexFoldersMap (Folders yandexFolder))
                                  yandexBasePath ncFolders ?s1))"
      using statsGrow_syncFolders(2) [of ?s1 p] by (simp add: statsGrow_def)
    then show ?thesis
      using Folder by (simp add: Let_def TotalFiles_syncFiles)
  qed
  show ?thesis
    using syncFolders_None [of p ncFolder yandexFolder yandexBasePath s] fileStep
      TotalFiles_syncFiles [of p yandexFiles yandexBasePath files s] sub level
    by blast
qed

theorem syncFolders_partial_failure_witness:
  "needsSync Map.empty (File ''/src/bad.txt'' 1)
   \<and> fst (syncFile demoProcessor ''/src/bad.txt'' ''/dst'' (Base ''/src/bad.txt'')
             (addTotal (demoState [] [] [''/src/bad.txt'', ''dst/sub''])))
       = Some (FailedDownload RemoteUnavailable)
   \<and> syncFiles demoProcessor Map.empty ''/dst'' [File ''/src/bad.txt'' 1, File ''/src/b.txt'' 1]
        (demoState [] [] [''/src/bad.txt'', ''dst/sub''])
       = syncFiles demoProcessor Map.empty ''/dst'' [File ''/src/b.txt'' 1]
           (addError (snd (syncFile demoProcessor ''/src/bad.txt'' ''/dst'' (Base ''/src/bad.txt'')
              (addTotal (demoState [] [] [''/src/bad.txt'', ''dst/sub''])))))
   \<and> fst (createFolderChain demoProcessor (''/dst'' @ ''/'' @ decodeName (Base ''/src/sub''))
             (demoState [] [] [''/src/bad.txt'', ''dst/sub'']))
       = Some (FailedCreateFolder ''dst/sub'' RemoteUnavailable)
   \<and> syncSubFolders demoProcessor Map.empty ''/dst''
        [Folder ''/src/sub'' 0 [File ''/src/sub/c.txt'' 2] [],
         Folder ''/src/sub2'' 0 [File ''/src/sub2/d.txt'' 2] []]
        (demoState [] [] [''/src/bad.txt'', ''dst/sub''])
       = syncSubFolders demoProcessor Map.empty ''/dst''
           [Folder ''/src/sub2'' 0 [File ''/src/sub2/d.txt'' 2] []]
           (snd (createFolderChain demoProcessor (''/dst'' @ ''/'' @ decodeName (Base ''/src/sub''))
                   (demoState [] [] [''/src/bad.txt'', ''dst/sub''])))
   \<and> stats (snd (syncFolders demoProcessor
        (Folder ''/src'' 0 [File ''/src/bad.txt'' 1, File ''/src/b.txt'' 1]
           [Folder ''/src/sub'' 0 [File ''/src/sub/c.txt'' 2] [],
            Folder ''/src/sub2'' 0 [File ''/src/sub2/d.txt'' 2] []])
        (emptyFolder ''/dst'') ''/dst'' (demoState [] [] [''/src/bad.txt'', ''dst/sub''])))
      = \<lparr>TotalFiles = 3, UploadedFiles = 2, SkippedFiles = 0, ErrorFiles = 1\<rparr>"
proof -
  let ?S = "demoState [] [] [''/src/bad.txt'', ''dst/sub'']"
  let ?sf = "syncFile demoProcessor ''/src/bad.txt'' ''/dst'' (Base ''/src/bad.txt'') (addTotal ?S)"
  let ?cf = "createFolderChain demoProcessor (''/dst'' @ ''/'' @ decodeName (Base ''/src/sub'')) ?S"
  have n: "needsSync Map.empty (File ''/src/bad.txt'' 1)"
    by (simp add: needsSync_def)
  have f: "fst ?sf = Some (FailedDownload RemoteUnavailable)"
    by code_simp
  then have f': "?sf = (Some (FailedDownload RemoteUnavailable), snd ?sf)"
    by (metis prod.collapse)
  have c: "fst ?cf = Some (FailedCreateFolder ''dst/sub'' RemoteUnavailable)"
    by code_simp
  then have c': "?cf = (Some (FailedCreateFolder ''dst/sub'' RemoteUnavailable), snd ?cf)"
    by (metis prod.collapse)
  have run: "stats (snd (syncFolders demoProcessor
        (Folder ''/src'' 0 [File ''/src/bad.txt'' 1, File ''/src/b.txt'' 1]
           [Folder ''/src/sub'' 0 [File ''/src/sub/c.txt'' 2] [],
            Folder ''/src/sub2'' 0 [File ''/src/sub2/d.txt'' 2] []])
        (emptyFolder ''/dst'') ''/dst'' ?S))
      = \<lparr>TotalFiles = 3, UploadedFiles = 2, SkippedFiles = 0, ErrorFiles = 1\<rparr>"
    by code_simp
  have inst: "(\<forall>err s1. needsSync Map.empty (File ''/src/bad.txt'' 1)
         \<and> syncFile demoProcessor (File_Path (File ''/src/bad.txt'' 1)) ''/dst''
              (Base (File_Path (File ''/src/bad.txt'' 1))) (addTotal ?S) = (Some err, s1) \<longrightarrow>
         syncFiles demoProcessor Map.empty ''/dst'' (File ''/src/bad.txt'' 1 # [File ''/src/b.txt'' 1]) ?S
           = syncFiles demoProcessor Map.empty ''/dst'' [File ''/src/b.txt'' 1] (addError s1)
         \<and> stats (addError s1)
             = (stats ?S)\<lparr>TotalFiles := TotalFiles (stats ?S) + 1,
                          ErrorFiles := ErrorFiles (stats ?S) + 1\<rparr>)
     \<and> (\<forall>err s1. (Map.empty :: string \<rightharpoonup> Folder)
             (decodeName (Base (Folder_Path (Folder ''/src/sub'' 0 [File ''/src/sub/c.txt'' 2] [])))) = None
         \<and> createFolderChain demoProcessor
              (''/dst'' @ ''/'' @ decodeName (Base (Folder_Path (Folder ''/src/sub'' 0 [File ''/src/sub/c.txt'' 2] [])))) ?S
             = (Some err, s1) \<longrightarrow>
         syncSubFolders demoProcessor Map.empty ''/dst''
            (Folder ''/src/sub'' 0 [File ''/src/sub/c.txt'' 2] []
             # [Folder ''/src/sub2'' 0 [File ''/src/sub2/d.txt'' 2] []]) ?S
           = syncSubFolders demoProcessor Map.empty ''/dst''
               [Folder ''/src/sub2'' 0 [File ''/src/sub2/d.txt'' 2] []] s1
         \<and> stats s1 = stats ?S)"
    using syncFolders_partial_failure
      [of demoProcessor "emptyFolder ''/src''" "emptyFolder ''/dst''" "''/dst''" ?S Map.empty
          "File ''/src/bad.txt'' 1" "[File ''/src/b.txt'' 1]" Map.empty
          "Folder ''/src/sub'' 0 [File ''/src/sub/c.txt'' 2] []"
          "[Folder ''/src/sub2'' 0 [File ''/src/sub2/d.txt'' 2] []]"]
    by blast
  have files: "syncFiles demoProcessor Map.empty ''/dst'' [File ''/src/bad.txt'' 1, File ''/src/b.txt'' 1] ?S
       = syncFiles demoProcessor Map.empty ''/dst'' [File ''/src/b.txt'' 1] (addError (snd ?sf))"
    using inst n f' by (metis File.sel(1))
  have subs: "syncSubFolders demoProcessor Map.empty ''/dst''
        [Folder ''/src/sub'' 0 [File ''/src/sub/c.txt'' 2] [],
         Folder ''/src/sub2'' 0 [File ''/src/sub2/d.txt'' 2] []] ?S
       = syncSubFolders demoProcessor Map.empty ''/dst''
           [Folder ''/src/sub2'' 0 [File ''/src/sub2/d.txt'' 2] []] (snd ?cf)"
    using inst c' by (metis Folder.sel(1))
  show ?thesis
    using n f files c subs run by blast
qed

section \<open>C3: multi-root destination mapping\<close>

text \<open>
  Claim C3.  With exactly one configured source root the target path is the destination
  root itself, and the loop body of \<open>Main\<close> reconciles the source snapshot against the
  destination root's snapshot at that path.  With two or more, the target path is the
  destination root, a slash, and the final path segment of the source root (\<open>"root"\<close>
  when \<open>path.Base\<close> gives \<open>"/"\<close> or \<open>"."\<close>); it is never the destination root, and
  whenever the loop body reconciles at all it does so at that target path, against a
  snapshot rooted there.  Roots \<open>"/docs"\<close> and \<open>"/photos"\<close> with destination
  \<open>"/backup"\<close> go to \<open>"/backup/docs"\<close> and \<open>"/backup/photos"\<close>.
\<close>

theorem multi_root_destination_mapping:
  fixes p :: "'w Processor"
  shows
  "(length (NextcloudSyncPaths cfg) = 1 \<longrightarrow>
      syncTargetPath cfg syncPath = YandexTargetPath cfg
      \<and> (\<forall>ncFs s1. getNextcloudFileSystem fuel p syncPath s = Some (Inr ncFs, s1) \<longrightarrow>
            processSyncPath fuel p cfg yndxFs syncPath s
              = Some (snd (syncFolders p ncFs yndxFs (YandexTargetPath cfg) s1))))
   \<and> (2 \<le> length (NextcloudSyncPaths cfg) \<longrightarrow>
      syncTargetPath cfg syncPath
        = YandexTargetPath cfg @ ''/'' @
            (if Base syncPath = ''/'' \<or> Base syncPath = ''.'' then ''root'' else Base syncPath)
      \<and> syncTargetPath cfg syncPath \<noteq> YandexTargetPath cfg
      \<and> (\<forall>ncFs s1 s'.
            getNextcloudFileSystem fuel p syncPath s = Some (Inr ncFs, s1)
            \<and> processSyncPath fuel p cfg yndxFs syncPath s = Some s' \<longrightarrow>
            (\<exists>yandexFs s2. Folder_Path yandexFs = syncTargetPath cfg syncPath
                \<and> s' = snd (syncFolders p ncFs yandexFs (syncTargetPath cfg syncPath) s2))
            \<or> (\<exists>err s2 createErr.
                  getYandexFileSystem fuel p (syncTargetPath cfg syncPath) s1 = Some (Inl err, s2)
                  \<and> callCreateFolder Yandex (yandexClient p) (syncTargetPath cfg syncPath) s2
                      = (Some createErr, s'))))
   \<and> map (syncTargetPath \<lparr>YandexTargetPath = ''/backup'', NextcloudSyncPaths = [''/docs'', ''/photos'']\<rparr>)
         [''/docs'', ''/photos'']
       = [''/backup/docs'', ''/backup/photos'']"
proof -
  let ?t = "syncTargetPath cfg syncPath"
  have one: "length (NextcloudSyncPaths cfg) = 1 \<longrightarrow> ?t = YandexTargetPath cfg"
    by (simp add: syncTargetPath_def)
  have one_step: "length (NextcloudSyncPaths cfg) = 1 \<longrightarrow>
      (\<forall>ncFs s1. getNextcloudFileSystem fuel p syncPath s = Some (Inr ncFs, s1) \<longrightarrow>
            processSyncPath fuel p cfg yndxFs syncPath s
              = Some (snd (syncFolders p ncFs yndxFs (YandexTargetPath cfg) s1)))"
    by (auto simp: processSyncPath_def syncTargetPath_def Let_def split: prod.splits)
  have many: "2 \<le> length (NextcloudSyncPaths cfg) \<longrightarrow>
      ?t = YandexTargetPath cfg @ ''/'' @
            (if Base syncPath = ''/'' \<or> Base syncPath = ''.'' then ''root'' else Base syncPath)"
    by (simp add: syncTargetPath_def subfolderName_def Let_def)
  have ne: "2 \<le> length (NextcloudSyncPaths cfg) \<longrightarrow> ?t \<noteq> YandexTargetPath cfg"
    by (simp add: syncTargetPath_def)
  have many_step: "2 \<le> length (NextcloudSyncPaths cfg) \<longrightarrow>
      (\<forall>ncFs s1 s'.
            getNextcloudFileSystem fuel p syncPath s = Some (Inr ncFs, s1)
            \<and> processSyncPath fuel p cfg yndxFs syncPath s = Some s' \<longrightarrow>
            (\<exists>yandexFs s2. Folder_Path yandexFs = ?t
                \<and> s' = snd (syncFolders p ncFs yandexFs ?t s2))
            \<or> (\<exists>err s2 createErr.
                  getYandexFileSystem fuel p ?t s1 = Some (Inl err, s2)
                  \<and> callCreateFolder Yandex (yandexClient p) ?t s2 = (Some createErr, s')))"
  proof (intro impI allI)
    fix ncFs s1 s'
    assume len: "2 \<le> length (NextcloudSyncPaths cfg)"
      and h: "getNextcloudFileSystem fuel p syncPath s = Some (Inr ncFs, s1)
              \<and> processSyncPath fuel p cfg yndxFs syncPath s = Some s'"
    have t: "?t \<noteq> YandexTargetPath cfg" using ne len by simp
    obtain res s2 where gy: "getYandexFileSystem fuel p ?t s1 = Some (res, s2)"
      using h t by (auto simp: processSyncPath_def Let_def split: option.splits)
    show "(\<exists>yandexFs s2. Folder_Path yandexFs = ?t
                \<and> s' = snd (syncFolders p ncFs yandexFs ?t s2))
          \<or> (\<exists>err s2 createErr.
                  getYandexFileSystem fuel p ?t s1 = Some (Inl err, s2)
                  \<and> callCreateFolder Yandex (yandexClient p) ?t s2 = (Some createErr, s'))"
    proof (cases res)
      case (Inr existingFs)
      have "Folder_Path existingFs = ?t"
        using gy Inr Folder_Path_getFileSystem(1) by (fastforce simp: getYandexFileSystem_def)
      moreover have "s' = snd (syncFolders p ncFs existingFs ?t s2)"
        using h t gy Inr by (auto simp: processSyncPath_def Let_def split: prod.splits)
      ultimately show ?thesis by blast
    next
      case (Inl err)
      obtain r s3 where cf: "callCreateFolder Yandex (yandexClient p) ?t s2 = (r, s3)"
        by fastforce
      show ?thesis
      proof (cases r)
        case (Some createErr)
        then have "s' = s3"
          using h t gy Inl cf by (auto simp: processSyncPath_def Let_def)
        then show ?thesis using gy Inl cf Some by blast
      next
        case None
        then have "s' = snd (syncFolders p ncFs (emptyFolder ?t) ?t s3)"
          using h t gy Inl cf by (auto simp: processSyncPath_def Let_def split: prod.splits)
        moreover have "Folder_Path (emptyFolder ?t) = ?t"
          by (simp add: emptyFolder_def)
        ultimately show ?thesis by blast
      qed
    qed
  qed
  have ex: "map (syncTargetPath \<lparr>YandexTargetPath = ''/backup'', NextcloudSyncPaths = [''/docs'', ''/photos'']\<rparr>)
         [''/docs'', ''/photos'']
       = [''/backup/docs'', ''/backup/photos'']"
    by code_simp
  show ?thesis
    using one one_step many ne many_step ex by blast
qed

theorem multi_root_destination_mapping_witness:
  "2 \<le> length (NextcloudSyncPaths \<lparr>YandexTargetPath = ''/backup'', NextcloudSyncPaths = [''/docs'', ''/photos'']\<rparr>)
   \<and> syncTargetPath \<lparr>YandexTargetPath = ''/backup'', NextcloudSyncPaths = [''/docs'', ''/photos'']\<rparr> ''/docs''
       = ''/backup/docs''
   \<and> syncTargetPath \<lparr>YandexTargetPath = ''/backup'', NextcloudSyncPaths = [''/docs'', ''/photos'']\<rparr> ''/docs''
       \<noteq> ''/backup''
   \<and> getNextcloudFileSystem 1 demoProcessor ''/docs'' (demoState [] [] [])
       = Some (Inr (Folder ''/docs'' 0 [File ''/docs/a.txt'' 0] []),
               \<lparr>world = \<lparr>existing = [], racing = [], broken = []\<rparr>,
                calls = [Event Nextcloud ListFilesCall ''/docs'' True], stats = zeroStats\<rparr>)
   \<and> processSyncPath 1 demoProcessor
         \<lparr>YandexTargetPath = ''/backup'', NextcloudSyncPaths = [''/docs'', ''/photos'']\<rparr>
         (emptyFolder ''/backup'') ''/docs'' (demoState [] [] []) \<noteq> None
   \<and> ((\<exists>yandexFs s2. Folder_Path yandexFs = ''/backup/docs''
          \<and> the (processSyncPath 1 demoProcessor
                 \<lparr>YandexTargetPath = ''/backup'', NextcloudSyncPaths = [''/docs'', ''/photos'']\<rparr>
                 (emptyFolder ''/backup'') ''/docs'' (demoState [] [] []))
            = snd (syncFolders demoProcessor (Folder ''/docs'' 0 [File ''/docs/a.txt'' 0] [])
                     yandexFs ''/backup/docs'' s2))
        \<or> (\<exists>err s2 createErr.
              getYandexFileSystem 1 demoProcessor ''/backup/docs''
                \<lparr>world = \<lparr>existing = [], racing = [], broken = []\<rparr>,
                 calls = [Event Nextcloud ListFilesCall ''/docs'' True], stats = zeroStats\<rparr>
              = Some (Inl err, s2)
              \<and> callCreateFolder Yandex (yandexClient demoProcessor) ''/backup/docs'' s2
                  = (Some createErr,
                     the (processSyncPath 1 demoProcessor
                       \<lparr>YandexTargetPath = ''/backup'', NextcloudSyncPaths = [''/docs'', ''/photos'']\<rparr>
                       (emptyFolder ''/backup'') ''/docs'' (demoState [] [] [])))))
   \<and> length (NextcloudSyncPaths \<lparr>YandexTargetPath = ''/backup'', NextcloudSyncPaths = [''/docs'']\<rparr>) = 1
   \<and> syncTargetPath \<lparr>YandexTargetPath = ''/backup'', NextcloudSyncPaths = [''/docs'']\<rparr> ''/docs''
       = ''/backup''"
proof -
  let ?cfg = "\<lparr>YandexTargetPath = ''/backup'', NextcloudSyncPaths = [''/docs'', ''/photos'']\<rparr>"
  let ?S = "demoState [] [] []"
  let ?S1 = "\<lparr>world = \<lparr>existing = [], racing = [], broken = []\<rparr>,
             calls = [Event Nextcloud ListFilesCall ''/docs'' True], stats = zeroStats\<rparr>"
  let ?run = "processSyncPath 1 demoProcessor ?cfg (emptyFolder ''/backup'') ''/docs'' ?S"
  have b: "Base ''/docs'' = ''docs''"
    by code_simp
  have g: "getNextcloudFileSystem 1 demoProcessor ''/docs'' ?S
           = Some (Inr (Folder ''/docs'' 0 [File ''/docs/a.txt'' 0] []), ?S1)"
    by code_simp
  have r: "?run = Some (the ?run)"
    by code_simp
  have many: "syncTargetPath ?cfg ''/docs'' = ''/backup/docs''
              \<and> syncTargetPath ?cfg ''/docs'' \<noteq> ''/backup''"
    using b multi_root_destination_mapping
        [of ?cfg "''/docs''" 1 demoProcessor ?S "emptyFolder ''/backup''"]
    by simp
  have len: "2 \<le> length (NextcloudSyncPaths ?cfg)"
    by simp
  have inst: "\<forall>ncFs s1 s'.
            getNextcloudFileSystem 1 demoProcessor ''/docs'' ?S = Some (Inr ncFs, s1)
            \<and> ?run = Some s' \<longrightarrow>
            (\<exists>yandexFs s2. Folder_Path yandexFs = syncTargetPath ?cfg ''/docs''
                \<and> s' = snd (syncFolders demoProcessor ncFs yandexFs (syncTargetPath ?cfg ''/docs'') s2))
            \<or> (\<exists>err s2 createErr.
                  getYandexFileSystem 1 demoProcessor (syncTargetPath ?cfg ''/docs'') s1 = Some (Inl err, s2)
                  \<and> callCreateFolder Yandex (yandexClient demoProcessor) (syncTargetPath ?cfg ''/docs'') s2
                      = (Some createErr, s'))"
    using len multi_root_destination_mapping
        [of ?cfg "''/docs''" 1 demoProcessor ?S "emptyFolder ''/backup''"]
    by blast
  have step: "(\<exists>yandexFs s2. Folder_Path yandexFs = syncTargetPath ?cfg ''/docs''
          \<and> the ?run = snd (syncFolders demoProcessor (Folder ''/docs'' 0 [File ''/docs/a.txt'' 0] [])
                     yandexFs (syncTargetPath ?cfg ''/docs'') s2))
        \<or> (\<exists>err s2 createErr.
              getYandexFileSystem 1 demoProcessor (syncTargetPath ?cfg ''/docs'') ?S1 = Some (Inl err, s2)
              \<and> callCreateFolder Yandex (yandexClient demoProcessor) (syncTargetPath ?cfg ''/docs'') s2
                  = (Some createErr, the ?run))"
    using inst g r by blast
  have single: "syncTargetPath \<lparr>YandexTargetPath = ''/backup'', NextcloudSyncPaths = [''/docs'']\<rparr> ''/docs''
       = ''/backup''"
    using multi_root_destination_mapping
        [of "\<lparr>YandexTargetPath = ''/backup'', NextcloudSyncPaths = [''/docs'']\<rparr>"
            "''/docs''" 1 demoProcessor ?S "emptyFolder ''/backup''"]
    by simp
  have run: "?run \<noteq> None"
    using r by (metis option.distinct(1))
  show ?thesis
    using len g run many step single by (simp only: simp_thms) simp
qed

section \<open>C4: the chain creation is idempotent\<close>

text \<open>
  Claim C4.  The chain creator looks up the path it was given with backslashes replaced
  and leading and trailing slashes removed.  When nothing remains it returns success
  at once.  When that lookup resolves it returns success with this one lookup as its
  only call to the remote, so no \<open>mkdir\<close> is issued.  On a remote where what was
  found or created can be found again, a second call for the same path after a
  successful first one succeeds too and issues no \<open>mkdir\<close>.  And whatever the remote
  answers, every \<open>mkdir\<close> the chain creator issues is for a path whose lookup it has
  just seen fail: no level that its lookup finds present is created.
\<close>

theorem createFolderChain_idempotent:
  fixes p :: "'w Processor"
  shows
  "(normalizePath folderPath = [] \<longrightarrow> createFolderChain p folderPath s = (None, s))
   \<and> (\<forall>info s1. normalizePath folderPath \<noteq> []
         \<and> callGetFileInfo Yandex (yandexClient p) (normalizePath folderPath) s = (Inr info, s1)
         \<longrightarrow> createFolderChain p folderPath s = (None, s1)
             \<and> calls s1 = calls s @ [Event Yandex GetFileInfoCall (normalizePath folderPath) True])
   \<and> (lookupStable (yandexClient p) \<longrightarrow>
        (\<forall>s1. createFolderChain p folderPath s = (None, s1) \<longrightarrow>
           fst (createFolderChain p folderPath s1) = None
           \<and> (\<forall>e\<in>set (drop (length (calls s1)) (calls (snd (createFolderChain p folderPath s1)))).
                 ev_op e \<noteq> CreateFolderCall)))
   \<and> (\<exists>new. calls (snd (createFolderChain p folderPath s)) = calls s @ new
              \<and> mkdirsAfterFailedLookup [] new)"
proof -
  have ex: "\<forall>info s1. normalizePath folderPath \<noteq> []
         \<and> callGetFileInfo Yandex (yandexClient p) (normalizePath folderPath) s = (Inr info, s1)
         \<longrightarrow> createFolderChain p folderPath s = (None, s1)
             \<and> calls s1 = calls s @ [Event Yandex GetFileInfoCall (normalizePath folderPath) True]"
    using calls_callD(1) [of Yandex "yandexClient p" "normalizePath folderPath" s]
    by (auto simp: createFolderChain_exists)
  have again: "lookupStable (yandexClient p) \<longrightarrow>
        (\<forall>s1. createFolderChain p folderPath s = (None, s1) \<longrightarrow>
           fst (createFolderChain p folderPath s1) = None
           \<and> (\<forall>e\<in>set (drop (length (calls s1)) (calls (snd (createFolderChain p folderPath s1)))).
                 ev_op e \<noteq> CreateFolderCall))"
    using createFolderChain_again by blast
  show ?thesis
    using ex again createFolderChain_empty [of folderPath p s]
      calls_createFolderChain [of p folderPath s]
    by blast
qed

theorem createFolderChain_idempotent_witness:
  "lookupStable (yandexClient demoProcessor)
   \<and> fst (createFolderChain demoProcessor ''/a/b/c'' (demoState [''a''] [] [])) = None
   \<and> calls (snd (createFolderChain demoProcessor ''/a/b/c'' (demoState [''a''] [] [])))
       = [Event Yandex GetFileInfoCall ''a/b/c'' False, Event Yandex GetFileInfoCall ''a/b'' False,
          Event Yandex GetFileInfoCall ''a'' True, Event Yandex CreateFolderCall ''a/b'' True,
          Event Yandex CreateFolderCall ''a/b/c'' True]
   \<and> fst (createFolderChain demoProcessor ''/a/b/c''
             (snd (createFolderChain demoProcessor ''/a/b/c'' (demoState [''a''] [] [])))) = None
   \<and> calls (snd (createFolderChain demoProcessor ''/a/b/c''
             (snd (createFolderChain demoProcessor ''/a/b/c'' (demoState [''a''] [] [])))))
       = calls (snd (createFolderChain demoProcessor ''/a/b/c'' (demoState [''a''] [] [])))
           @ [Event Yandex GetFileInfoCall ''a/b/c'' True]
   \<and> normalizePath ''/a/'' \<noteq> []
   \<and> fst (callGetFileInfo Yandex (yandexClient demoProcessor) (normalizePath ''/a/'')
            (demoState [''a''] [] [])) = Inr (demoInfo ''a'')
   \<and> createFolderChain demoProcessor ''/a/'' (demoState [''a''] [] [])
       = (None, snd (callGetFileInfo Yandex (yandexClient demoProcessor) (normalizePath ''/a/'')
                       (demoState [''a''] [] [])))
   \<and> createFolderChain demoProcessor ''//'' (demoState [] [] []) = (None, demoState [] [] [])"
proof -
  let ?S = "demoState [''a''] [] []"
  let ?c1 = "createFolderChain demoProcessor ''/a/b/c'' ?S"
  let ?c2 = "createFolderChain demoProcessor ''/a/b/c'' (snd ?c1)"
  let ?gi = "callGetFileInfo Yandex (yandexClient demoProcessor) (normalizePath ''/a/'') ?S"
  have st: "lookupStable (yandexClient demoProcessor)"
    by (auto simp: lookupStable_def demoProcessor_def demoYandex_def split: if_splits)
  have c1: "fst ?c1 = None"
    by code_simp
  then have c1': "?c1 = (None, snd ?c1)"
    by (metis prod.collapse)
  have tr: "calls (snd ?c1)
       = [Event Yandex GetFileInfoCall ''a/b/c'' False, Event Yandex GetFileInfoCall ''a/b'' False,
          Event Yandex GetFileInfoCall ''a'' True, Event Yandex CreateFolderCall ''a/b'' True,
          Event Yandex CreateFolderCall ''a/b/c'' True]"
    by code_simp
  have c2: "fst ?c2 = None"
    using st c1' createFolderChain_idempotent [of "''/a/b/c''" demoProcessor ?S] by blast
  have tr2: "calls (snd ?c2) = calls (snd ?c1) @ [Event Yandex GetFileInfoCall ''a/b/c'' True]"
    by code_simp
  have n: "normalizePath ''/a/'' \<noteq> []"
    by code_simp
  have gi: "fst ?gi = Inr (demoInfo ''a'')"
    by code_simp
  then have gi': "?gi = (Inr (demoInfo ''a''), snd ?gi)"
    by (metis prod.collapse)
  have ex: "createFolderChain demoProcessor ''/a/'' ?S = (None, snd ?gi)"
    using n gi' createFolderChain_idempotent [of "''/a/''" demoProcessor ?S] by blast
  have e0: "normalizePath ''//'' = []"
    by code_simp
  have em: "createFolderChain demoProcessor ''//'' (demoState [] [] []) = (None, demoState [] [] [])"
    using e0 createFolderChain_idempotent [of "''//''" demoProcessor "demoState [] [] []"] by blast
  show ?thesis
    using st c1 tr c2 tr2 n gi ex em by simp
qed

section \<open>C5: when a run is fatal\<close>

text \<open>
  Claim C5.  With no source root configured \<open>Main\<close> returns the configuration error at
  once.  Whenever \<open>Main\<close> returns, it returns an error if and only if no source root is
  configured, or the snapshot of the destination root fails and the chain creation for
  the destination root fails as well; so no failure of a source root or of a file makes
  the run fail.  \<open>Main\<close> returns whenever the snapshot builders do (the directory
  listings of the remotes are of bounded depth).
\<close>

theorem Main_fatal_iff:
  fixes p :: "'w Processor"
  shows
  "(NextcloudSyncPaths cfg = [] \<longrightarrow> Main fuel p cfg s = Some (Some NoSyncPaths, s))
   \<and> (\<forall>r s'. Main fuel p cfg s = Some (r, s') \<longrightarrow>
        (r \<noteq> None \<longleftrightarrow>
           NextcloudSyncPaths cfg = []
           \<or> (\<exists>err s1 createErr s2.
                 getYandexFileSystem fuel p (YandexTargetPath cfg) s = Some (Inl err, s1)
                 \<and> createFolderChain p (YandexTargetPath cfg) s1 = (Some createErr, s2))))
   \<and> ((\<forall>path t. getYandexFileSystem fuel p path t \<noteq> None
                  \<and> getNextcloudFileSystem fuel p path t \<noteq> None)
       \<longrightarrow> (\<exists>r s'. Main fuel p cfg s = Some (r, s')))"
proof -
  have a: "NextcloudSyncPaths cfg = [] \<longrightarrow> Main fuel p cfg s = Some (Some NoSyncPaths, s)"
    by (simp add: Main_def)
  have b: "\<forall>r s'. Main fuel p cfg s = Some (r, s') \<longrightarrow>
        (r \<noteq> None \<longleftrightarrow>
           NextcloudSyncPaths cfg = []
           \<or> (\<exists>err s1 createErr s2.
                 getYandexFileSystem fuel p (YandexTargetPath cfg) s = Some (Inl err, s1)
                 \<and> createFolderChain p (YandexTargetPath cfg) s1 = (Some createErr, s2)))"
    by (auto simp: Main_def split: if_splits option.splits sum.splits prod.splits)
  have c: "(\<forall>path t. getYandexFileSystem fuel p path t \<noteq> None
                  \<and> getNextcloudFileSystem fuel p path t \<noteq> None)
       \<longrightarrow> (\<exists>r s'. Main fuel p cfg s = Some (r, s'))"
  proof
    assume tot: "\<forall>path t. getYandexFileSystem fuel p path t \<noteq> None
                  \<and> getNextcloudFileSystem fuel p path t \<noteq> None"
    obtain r1 s1 where y: "getYandexFileSystem fuel p (YandexTargetPath cfg) s = Some (r1, s1)"
      using tot by (metis not_None_eq prod.collapse)
    have loop: "\<exists>s3. processSyncPaths fuel p cfg yfs (NextcloudSyncPaths cfg) t = Some s3" for yfs t
      using processSyncPaths_total [OF tot] by blast
    have "Main fuel p cfg s \<noteq> None"
    proof (cases "NextcloudSyncPaths cfg = []")
      case True
      then show ?thesis using a by simp
    next
      case False
      show ?thesis
      proof (cases r1)
        case (Inr yndxFs)
        obtain s3 where "processSyncPaths fuel p cfg yndxFs (NextcloudSyncPaths cfg)
                           (s1\<lparr>stats := zeroStats\<rparr>) = Some s3"
          using loop by blast
        then show ?thesis
          using False y Inr by (simp add: Main_def)
      next
        case (Inl err)
        obtain r2 s2 where cf: "createFolderChain p (YandexTargetPath cfg) s1 = (r2, s2)"
          by fastforce
        obtain s3 where "processSyncPaths fuel p cfg (emptyFolder (YandexTargetPath cfg))
                           (NextcloudSyncPaths cfg) (s2\<lparr>stats := zeroStats\<rparr>) = Some s3"
          using loop by blast
        then show ?thesis
          using False y Inl cf by (cases r2) (simp_all add: Main_def)
      qed
    qed
    then show "\<exists>r s'. Main fuel p cfg s = Some (r, s')"
      by (metis not_None_eq prod.collapse)
  qed
  show ?thesis
    using a b c by blast
qed

theorem Main_fatal_iff_witness:
  "(\<forall>path t. getYandexFileSystem 1 demoProcessor path t \<noteq> None
              \<and> getNextcloudFileSystem 1 demoProcessor path t \<noteq> None)
   \<and> (\<exists>r s'. Main 1 demoProcessor
          \<lparr>YandexTargetPath = ''/backup'', NextcloudSyncPaths = [''/gone'', ''/docs'']\<rparr>
          (demoState [] [] [''/gone'', ''/docs/a.txt'']) = Some (r, s'))
   \<and> map_option fst (Main 1 demoProcessor
          \<lparr>YandexTargetPath = ''/backup'', NextcloudSyncPaths = [''/gone'', ''/docs'']\<rparr>
          (demoState [] [] [''/gone'', ''/docs/a.txt''])) = Some None
   \<and> map_option (\<lambda>r. stats (snd r)) (Main 1 demoProcessor
          \<lparr>YandexTargetPath = ''/backup'', NextcloudSyncPaths = [''/gone'', ''/docs'']\<rparr>
          (demoState [] [] [''/gone'', ''/docs/a.txt'']))
       = Some \<lparr>TotalFiles = 1, UploadedFiles = 0, SkippedFiles = 0, ErrorFiles = 1\<rparr>
   \<and> map_option fst (Main 1 demoProcessor
          \<lparr>YandexTargetPath = ''/backup'', NextcloudSyncPaths = [''/docs'']\<rparr>
          (demoState [] [] [''backup'']))
       = Some (Some (FailedCreateTargetChain (FailedCreateFolder ''backup'' RemoteUnavailable)))
   \<and> Main 1 demoProcessor \<lparr>YandexTargetPath = ''/backup'', NextcloudSyncPaths = []\<rparr>
          (demoState [] [] [])
       = Some (Some NoSyncPaths, demoState [] [] [])"
proof -
  have one: "(1::nat) = Suc 0" by simp
  have tot: "\<forall>path t. getYandexFileSystem 1 demoProcessor path t \<noteq> None
              \<and> getNextcloudFileSystem 1 demoProcessor path t \<noteq> None"
    unfolding one
    by (simp add: getYandexFileSystem_def getNextcloudFileSystem_def callListFiles_def
          demoProcessor_def demoYandex_def demoNextcloud_def demoInfo_def)
  have ex: "\<exists>r s'. Main 1 demoProcessor
          \<lparr>YandexTargetPath = ''/backup'', NextcloudSyncPaths = [''/gone'', ''/docs'']\<rparr>
          (demoState [] [] [''/gone'', ''/docs/a.txt'']) = Some (r, s')"
    using tot Main_fatal_iff
      [of "\<lparr>YandexTargetPath = ''/backup'', NextcloudSyncPaths = [''/gone'', ''/docs'']\<rparr>" 1
          demoProcessor "demoState [] [] [''/gone'', ''/docs/a.txt'']"]
    by blast
  have runA: "map_option fst (Main 1 demoProcessor
          \<lparr>YandexTargetPath = ''/backup'', NextcloudSyncPaths = [''/gone'', ''/docs'']\<rparr>
          (demoState [] [] [''/gone'', ''/docs/a.txt''])) = Some None"
    by code_simp
  have statsA: "map_option (\<lambda>r. stats (snd r)) (Main 1 demoProcessor
          \<lparr>YandexTargetPath = ''/backup'', NextcloudSyncPaths = [''/gone'', ''/docs'']\<rparr>
          (demoState [] [] [''/gone'', ''/docs/a.txt'']))
       = Some \<lparr>TotalFiles = 1, UploadedFiles = 0, SkippedFiles = 0, ErrorFiles = 1\<rparr>"
    by code_simp
  have runB: "map_option fst (Main 1 demoProcessor
          \<lparr>YandexTargetPath = ''/backup'', NextcloudSyncPaths = [''/docs'']\<rparr>
          (demoState [] [] [''backup'']))
       = Some (Some (FailedCreateTargetChain (FailedCreateFolder ''backup'' RemoteUnavailable)))"
    by code_simp
  have runC: "Main 1 demoProcessor \<lparr>YandexTargetPath = ''/backup'', NextcloudSyncPaths = []\<rparr>
          (demoState [] [] [])
       = Some (Some NoSyncPaths, demoState [] [] [])"
    using Main_fatal_iff
      [of "\<lparr>YandexTargetPath = ''/backup'', NextcloudSyncPaths = []\<rparr>" 1 demoProcessor
          "demoState [] [] []"]
    by simp
  show ?thesis
    using tot ex runA statsA runB runC by blast
qed

section \<open>C6: \<open>AlreadyExists\<close> from the final \<open>mkdir\<close>\<close>

text \<open>
  Claim C6 as stated fails in its second half.  The destination root \<open>dst\<close> exists,
  \<open>dst/sub\<close> is created by somebody else between the lookup and the \<open>mkdir\<close>, so the
  \<open>mkdir\<close> answers \<open>AlreadyExists\<close>.  The chain creator returns that error, and the
  reconciler skips the subfolder: its file is never counted and never transferred.
\<close>

theorem AlreadyExists_skips_subfolder_counterexample:
  "fst (createFolderChain demoProcessor ''/dst/sub'' (demoState [''dst''] [''dst/sub''] []))
     = Some (FailedCreateFolder ''dst/sub'' AlreadyExists)
   \<and> stats (snd (syncFolders demoProcessor
         (Folder ''/src'' 0 [] [Folder ''/src/sub'' 0 [File ''/src/sub/c.txt'' 2] []])
         (emptyFolder ''/dst'') ''/dst'' (demoState [''dst''] [''dst/sub''] [])))
     = \<lparr>TotalFiles = 0, UploadedFiles = 0, SkippedFiles = 0, ErrorFiles = 0\<rparr>
   \<and> calls (snd (syncFolders demoProcessor
         (Folder ''/src'' 0 [] [Folder ''/src/sub'' 0 [File ''/src/sub/c.txt'' 2] []])
         (emptyFolder ''/dst'') ''/dst'' (demoState [''dst''] [''dst/sub''] [])))
     = [Event Yandex GetFileInfoCall ''dst/sub'' False, Event Yandex GetFileInfoCall ''dst'' True,
        Event Yandex CreateFolderCall ''dst/sub'' False]"
  by code_simp

text \<open>
  Claim C6, amended.  When the final \<open>mkdir\<close> of a chain creation fails with
  \<open>AlreadyExists\<close>, the chain creator returns that error, wrapped with the path of the
  folder.  The reconciler treats a chain-creation error whose cause is
  \<open>AlreadyExists\<close> like any other: the subfolder is skipped, the loop goes on with
  the remaining subfolders from the state the failed creation left, and the statistics
  are as before the attempt.
\<close>

theorem AlreadyExists_skips_subfolder:
  fixes p :: "'w Processor"
  shows
  "(\<forall>err s1 s2 s3. normalizePath folderPath \<noteq> []
       \<and> callGetFileInfo Yandex (yandexClient p) (normalizePath folderPath) s = (Inl err, s1)
       \<and> createParent p (normalizePath folderPath) s1 = (None, s2)
       \<and> callCreateFolder Yandex (yandexClient p) (normalizePath folderPath) s2
           = (Some AlreadyExists, s3)
       \<longrightarrow> createFolderChain p folderPath s
             = (Some (FailedCreateFolder (normalizePath folderPath) AlreadyExists), s3)
           \<and> rootCause (FailedCreateFolder (normalizePath folderPath) AlreadyExists)
               = AlreadyExists)
   \<and> (\<forall>err s1. yandexFolders (decodeName (Base (Folder_Path ncSubFolder))) = None
       \<and> createFolderChain p
            (yandexBasePath @ ''/'' @ decodeName (Base (Folder_Path ncSubFolder))) s
           = (Some err, s1)
       \<and> rootCause err = AlreadyExists
       \<longrightarrow> syncSubFolders p yandexFolders yandexBasePath (ncSubFolder # ncFolders) s
             = syncSubFolders p yandexFolders yandexBasePath ncFolders s1
           \<and> stats s1 = stats s)"
proof -
  have a: "\<forall>err s1 s2 s3. normalizePath folderPath \<noteq> []
       \<and> callGetFileInfo Yandex (yandexClient p) (normalizePath folderPath) s = (Inl err, s1)
       \<and> createParent p (normalizePath folderPath) s1 = (None, s2)
       \<and> callCreateFolder Yandex (yandexClient p) (normalizePath folderPath) s2
           = (Some AlreadyExists, s3)
       \<longrightarrow> createFolderChain p folderPath s
             = (Some (FailedCreateFolder (normalizePath folderPath) AlreadyExists), s3)
           \<and> rootCause (FailedCreateFolder (normalizePath folderPath) AlreadyExists)
               = AlreadyExists"
    by (auto simp: createFolderChain_missing)
  have b: "\<forall>err s1. yandexFolders (decodeName (Base (Folder_Path ncSubFolder))) = None
       \<and> createFolderChain p
            (yandexBasePath @ ''/'' @ decodeName (Base (Folder_Path ncSubFolder))) s
           = (Some err, s1)
       \<and> rootCause err = AlreadyExists
       \<longrightarrow> syncSubFolders p yandexFolders yandexBasePath (ncSubFolder # ncFolders) s
             = syncSubFolders p yandexFolders yandexBasePath ncFolders s1
           \<and> stats s1 = stats s"
    by (auto simp: Let_def dest: stats_createFolderChainD)
  show ?thesis
    using a b by blast
qed

theorem AlreadyExists_skips_subfolder_witness:
  "normalizePath ''/dst/sub'' \<noteq> []
   \<and> fst (callGetFileInfo Yandex (yandexClient demoProcessor) (normalizePath ''/dst/sub'')
            (demoState [''dst''] [''dst/sub''] [])) = Inl NotFound
   \<and> fst (createParent demoProcessor (normalizePath ''/dst/sub'')
            (snd (callGetFileInfo Yandex (yandexClient demoProcessor) (normalizePath ''/dst/sub'')
                    (demoState [''dst''] [''dst/sub''] [])))) = None
   \<and> fst (callCreateFolder Yandex (yandexClient demoProcessor) (normalizePath ''/dst/sub'')
            (snd (createParent demoProcessor (normalizePath ''/dst/sub'')
               (snd (callGetFileInfo Yandex (yandexClient demoProcessor) (normalizePath ''/dst/sub'')
                       (demoState [''dst''] [''dst/sub''] [])))))) = Some AlreadyExists
   \<and> fst (createFolderChain demoProcessor ''/dst/sub'' (demoState [''dst''] [''dst/sub''] []))
       = Some (FailedCreateFolder (normalizePath ''/dst/sub'') AlreadyExists)
   \<and> (Map.empty :: string \<rightharpoonup> Folder) (decodeName (Base ''/src/sub'')) = None
   \<and> fst (createFolderChain demoProcessor (''/dst'' @ ''/'' @ decodeName (Base ''/src/sub''))
            (demoState [''dst''] [''dst/sub''] []))
       = Some (FailedCreateFolder ''dst/sub'' AlreadyExists)
   \<and> rootCause (FailedCreateFolder ''dst/sub'' AlreadyExists) = AlreadyExists
   \<and> syncSubFolders demoProcessor Map.empty ''/dst''
        [Folder ''/src/sub'' 0 [File ''/src/sub/c.txt'' 2] [],
         Folder ''/src/sub2'' 0 [File ''/src/sub2/d.txt'' 2] []]
        (demoState [''dst''] [''dst/sub''] [])
       = syncSubFolders demoProcessor Map.empty ''/dst''
           [Folder ''/src/sub2'' 0 [File ''/src/sub2/d.txt'' 2] []]
           (snd (createFolderChain demoProcessor (''/dst'' @ ''/'' @ decodeName (Base ''/src/sub''))
                   (demoState [''dst''] [''dst/sub''] [])))"
proof -
  let ?S = "demoState [''dst''] [''dst/sub''] []"
  let ?fp = "normalizePath ''/dst/sub''"
  let ?gi = "callGetFileInfo Yandex (yandexClient demoProcessor) ?fp ?S"
  let ?cp = "createParent demoProcessor ?fp (snd ?gi)"
  let ?mk = "callCreateFolder Yandex (yandexClient demoProcessor) ?fp (snd ?cp)"
  let ?cf = "createFolderChain demoProcessor (''/dst'' @ ''/'' @ decodeName (Base ''/src/sub'')) ?S"
  have n: "?fp \<noteq> []"
    by code_simp
  have gi: "fst ?gi = Inl NotFound"
    by code_simp
  then have gi': "?gi = (Inl NotFound, snd ?gi)"
    by (metis prod.collapse)
  have cp: "fst ?cp = None"
    by code_simp
  then have cp': "?cp = (None, snd ?cp)"
    by (metis prod.collapse)
  have mk: "fst ?mk = Some AlreadyExists"
    by code_simp
  then have mk': "?mk = (Some AlreadyExists, snd ?mk)"
    by (metis prod.collapse)
  have chain: "createFolderChain demoProcessor ''/dst/sub'' ?S
               = (Some (FailedCreateFolder ?fp AlreadyExists), snd ?mk)"
    using n gi' cp' mk'
      AlreadyExists_skips_subfolder
        [of "''/dst/sub''" demoProcessor ?S Map.empty
            "Folder ''/src/sub'' 0 [File ''/src/sub/c.txt'' 2] []"
            "''/dst''" "[Folder ''/src/sub2'' 0 [File ''/src/sub2/d.txt'' 2] []]"]
    by blast
  have c: "fst ?cf = Some (FailedCreateFolder ''dst/sub'' AlreadyExists)"
    by code_simp
  then have c': "?cf = (Some (FailedCreateFolder ''dst/sub'' AlreadyExists), snd ?cf)"
    by (metis prod.collapse)
  have rc: "rootCause (FailedCreateFolder ''dst/sub'' AlreadyExists) = AlreadyExists"
    by simp
  have inst: "\<forall>err s1. (Map.empty :: string \<rightharpoonup> Folder)
           (decodeName (Base (Folder_Path (Folder ''/src/sub'' 0 [File ''/src/sub/c.txt'' 2] [])))) = None
       \<and> createFolderChain demoProcessor
            (''/dst'' @ ''/'' @ decodeName (Base (Folder_Path (Folder ''/src/sub'' 0 [File ''/src/sub/c.txt'' 2] [])))) ?S
           = (Some err, s1)
       \<and> rootCause err = AlreadyExists
       \<longrightarrow> syncSubFolders demoProcessor Map.empty ''/dst''
              (Folder ''/src/sub'' 0 [File ''/src/sub/c.txt'' 2] []
               # [Folder ''/src/sub2'' 0 [File ''/src/sub2/d.txt'' 2] []]) ?S
             = syncSubFolders demoProcessor Map.empty ''/dst''
                 [Folder ''/src/sub2'' 0 [File ''/src/sub2/d.txt'' 2] []] s1
           \<and> stats s1 = stats ?S"
    using AlreadyExists_skips_subfolder
      [of "''/dst/sub''" demoProcessor ?S Map.empty "Folder ''/src/sub'' 0 [File ''/src/sub/c.txt'' 2] []"
          "''/dst''" "[Folder ''/src/sub2'' 0 [File ''/src/sub2/d.txt'' 2] []]"]
    by blast
  have subs: "syncSubFolders demoProcessor Map.empty ''/dst''
        [Folder ''/src/sub'' 0 [File ''/src/sub/c.txt'' 2] [],
         Folder ''/src/sub2'' 0 [File ''/src/sub2/d.txt'' 2] []] ?S
       = syncSubFolders demoProcessor Map.empty ''/dst''
           [Folder ''/src/sub2'' 0 [File ''/src/sub2/d.txt'' 2] []] (snd ?cf)"
    using inst c' rc by (metis Folder.sel(1))
  show ?thesis
    using n gi cp mk chain c rc subs by simp
qed

section \<open>C7: name decoding\<close>

text \<open>
  Claim C7 as stated fails: \<open>url.QueryUnescape\<close> turns a plus sign into a space, so a
  name without any percent-escape is changed when it contains a plus sign.
\<close>

theorem decodeName_plus_counterexample:
  "\<not> hasEscape ''a+b.txt'' \<and> CHR ''%'' \<notin> set ''a+b.txt'' \<and> decodeName ''a+b.txt'' = ''a b.txt''
   \<and> decodeName ''a+b.txt'' \<noteq> ''a+b.txt''"
  by (simp add: decodeName_def QueryUnescape_def)

text \<open>
  Claim C7, amended.  The decoding returns unchanged every name that contains no
  percent-escape and no plus sign (so decoding it again changes nothing either);
  \<open>"report.txt"\<close> is returned unchanged; \<open>"my%20file.txt"\<close> decodes to
  \<open>"my file.txt"\<close>; and the classification of a source file reads the destination
  table at the decoded base name only, so a source file \<open>my%20file.txt\<close> finds the
  destination entry \<open>my file.txt\<close>.
\<close>

theorem decodeName_unchanged_without_escape_or_plus:
  "(\<not> hasEscape name \<and> CHR ''+'' \<notin> set name \<longrightarrow>
      decodeName name = name \<and> decodeName (decodeName name) = decodeName name)
   \<and> decodeName ''report.txt'' = ''report.txt''
   \<and> decodeName ''my%20file.txt'' = ''my file.txt''
   \<and> (yandexFiles (decodeName (Base (File_Path ncFile)))
        = yandexFiles' (decodeName (Base (File_Path ncFile)))
      \<longrightarrow> needsSync yandexFiles ncFile = needsSync yandexFiles' ncFile)
   \<and> \<not> needsSync (yandexFilesMap [File ''disk:/dst/my file.txt'' 5]) (File ''/src/my%20file.txt'' 5)"
proof -
  have "decodeName ''my%20file.txt'' = ''my file.txt''"
    by code_simp
  moreover have "\<not> needsSync (yandexFilesMap [File ''disk:/dst/my file.txt'' 5])
                     (File ''/src/my%20file.txt'' 5)"
    by code_simp
  moreover have "decodeName ''report.txt'' = ''report.txt''"
    by (simp add: decodeName_def QueryUnescape_def)
  ultimately show ?thesis
    by (auto simp: decodeName_plain needsSync_def)
qed

theorem decodeName_unchanged_witness:
  "\<not> hasEscape ''100%.txt'' \<and> CHR ''+'' \<notin> set ''100%.txt''
   \<and> decodeName ''100%.txt'' = ''100%.txt''
   \<and> yandexFilesMap [File ''disk:/dst/my file.txt'' 5] (decodeName (Base ''/src/my%20file.txt''))
       = yandexFilesMap [File ''disk:/dst/other.txt'' 9, File ''disk:/dst/my file.txt'' 5]
           (decodeName (Base ''/src/my%20file.txt''))
   \<and> needsSync (yandexFilesMap [File ''disk:/dst/my file.txt'' 5]) (File ''/src/my%20file.txt'' 5)
       = needsSync (yandexFilesMap [File ''disk:/dst/other.txt'' 9, File ''disk:/dst/my file.txt'' 5])
           (File ''/src/my%20file.txt'' 5)"
proof -
  have plain: "\<not> hasEscape ''100%.txt'' \<and> CHR ''+'' \<notin> set ''100%.txt''"
    by (simp add: ishex_def)
  have same: "yandexFilesMap [File ''disk:/dst/my file.txt'' 5]
                (decodeName (Base (File_Path (File ''/src/my%20file.txt'' 5))))
       = yandexFilesMap [File ''disk:/dst/other.txt'' 9, File ''disk:/dst/my file.txt'' 5]
           (decodeName (Base (File_Path (File ''/src/my%20file.txt'' 5))))"
    by code_simp
  have unchanged: "decodeName ''100%.txt'' = ''100%.txt''"
    using plain decodeName_unchanged_without_escape_or_plus [of "''100%.txt''"] by blast
  have lookup: "needsSync (yandexFilesMap [File ''disk:/dst/my file.txt'' 5]) (File ''/src/my%20file.txt'' 5)
       = needsSync (yandexFilesMap [File ''disk:/dst/other.txt'' 9, File ''disk:/dst/my file.txt'' 5])
           (File ''/src/my%20file.txt'' 5)"
    using same decodeName_unchanged_without_escape_or_plus
        [of "''x''" "yandexFilesMap [File ''disk:/dst/my file.txt'' 5]" "File ''/src/my%20file.txt'' 5"
            "yandexFilesMap [File ''disk:/dst/other.txt'' 9, File ''disk:/dst/my file.txt'' 5]"]
    by blast
  show ?thesis
    using plain unchanged same lookup by simp
qed

section \<open>C8: collisions of the root-to-subfolder mapping\<close>

text \<open>
  Claim C8 as stated fails: two distinct source roots with the same final path segment
  are mapped to the same destination subfolder, and so are the roots \<open>"/"\<close> and
  \<open>"."\<close>, which both get the placeholder name.
\<close>

theorem syncTargetPath_collision_counterexample:
  "''/a/docs'' \<noteq> ''/b/docs''
   \<and> syncTargetPath \<lparr>YandexTargetPath = ''/backup'', NextcloudSyncPaths = [''/a/docs'', ''/b/docs'']\<rparr> ''/a/docs''
     = syncTargetPath \<lparr>YandexTargetPath = ''/backup'', NextcloudSyncPaths = [''/a/docs'', ''/b/docs'']\<rparr> ''/b/docs''
   \<and> \<not> inj_on (syncTargetPath \<lparr>YandexTargetPath = ''/backup'', NextcloudSyncPaths = [''/a/docs'', ''/b/docs'']\<rparr>)
          (set (NextcloudSyncPaths \<lparr>YandexTargetPath = ''/backup'', NextcloudSyncPaths = [''/a/docs'', ''/b/docs'']\<rparr>))"
proof -
  have eq: "syncTargetPath \<lparr>YandexTargetPath = ''/backup'', NextcloudSyncPaths = [''/a/docs'', ''/b/docs'']\<rparr> ''/a/docs''
     = syncTargetPath \<lparr>YandexTargetPath = ''/backup'', NextcloudSyncPaths = [''/a/docs'', ''/b/docs'']\<rparr> ''/b/docs''"
    by code_simp
  then show ?thesis
    by (auto simp: inj_on_def)
qed

text \<open>
  Claim C8, amended.  For every configuration with two or more source roots, two roots
  with different subfolder names (the final path segment, or the placeholder) are
  synced into different destination subfolders; so the mapping from source root to
  destination subfolder is injective on a configuration whose roots have pairwise
  distinct subfolder names.
\<close>

theorem syncTargetPath_injective_on_names:
  "2 \<le> length (NextcloudSyncPaths cfg) \<Longrightarrow>
     (subfolderName a \<noteq> subfolderName b \<longrightarrow> syncTargetPath cfg a \<noteq> syncTargetPath cfg b)
     \<and> (inj_on subfolderName (set (NextcloudSyncPaths cfg))
          \<longrightarrow> inj_on (syncTargetPath cfg) (set (NextcloudSyncPaths cfg)))"
  by (auto simp: syncTargetPath_def inj_on_def)

theorem syncTargetPath_injective_witness:
  "2 \<le> length (NextcloudSyncPaths \<lparr>YandexTargetPath = ''/backup'', NextcloudSyncPaths = [''/docs'', ''/photos'']\<rparr>)
   \<and> subfolderName ''/docs'' \<noteq> subfolderName ''/photos''
   \<and> syncTargetPath \<lparr>YandexTargetPath = ''/backup'', NextcloudSyncPaths = [''/docs'', ''/photos'']\<rparr> ''/docs''
       \<noteq> syncTargetPath \<lparr>YandexTargetPath = ''/backup'', NextcloudSyncPaths = [''/docs'', ''/photos'']\<rparr> ''/photos''
   \<and> inj_on subfolderName (set [''/docs'', ''/photos''])
   \<and> inj_on (syncTargetPath \<lparr>YandexTargetPath = ''/backup'', NextcloudSyncPaths = [''/docs'', ''/photos'']\<rparr>)
        (set [''/docs'', ''/photos''])"
proof -
  have n1: "subfolderName ''/docs'' = ''docs''" by code_simp
  have n2: "subfolderName ''/photos'' = ''photos''" by code_simp
  have ne: "subfolderName ''/docs'' \<noteq> subfolderName ''/photos''"
    by (simp add: n1 n2)
  have inj: "inj_on subfolderName (set [''/docs'', ''/photos''])"
    by (simp add: inj_on_def n1 n2)
  show ?thesis
    using ne inj syncTargetPath_injective_on_names
        [of "\<lparr>YandexTargetPath = ''/backup'', NextcloudSyncPaths = [''/docs'', ''/photos'']\<rparr>"
            "''/docs''" "''/photos''"]
    by simp
qed

section \<open>C9: the accounting of the statistics\<close>

text \<open>
  Claim C9.  Every operation of the reconciler leaves each counter where it was or
  higher, and adds to the total exactly what it adds to the three outcome counters
  together: the chain creator and the file transfer do not touch the counters, the
  per-file step and the whole of \<open>syncFolders\<close> only increment them.  Hence, started
  on all-zero statistics, a run of \<open>syncFolders\<close> ends with
  \<open>TotalFiles = UploadedFiles + SkippedFiles + ErrorFiles\<close> and no negative counter.
\<close>

theorem stats_accounting:
  fixes p :: "'w Processor"
  shows
  "statsGrow (stats s) (stats (snd (syncFolders p ncFolder yandexFolder yandexBasePath s)))
   \<and> statsGrow (stats s) (stats (syncFileEntry p yandexFiles yandexBasePath ncFile s))
   \<and> stats (snd (syncFile p ncFilePath yandexBasePath fileName s)) = stats s
   \<and> stats (snd (createFolderChain p folderPath s)) = stats s
   \<and> (stats s = zeroStats \<longrightarrow>
        (let st = stats (snd (syncFolders p ncFolder yandexFolder yandexBasePath s))
         in TotalFiles st = UploadedFiles st + SkippedFiles st + ErrorFiles st
            \<and> 0 \<le> TotalFiles st \<and> 0 \<le> UploadedFiles st \<and> 0 \<le> SkippedFiles st
            \<and> 0 \<le> ErrorFiles st))"
proof -
  have g: "statsGrow (stats s) (stats (snd (syncFolders p ncFolder yandexFolder yandexBasePath s)))"
    by (rule statsGrow_syncFolders(1))
  have z: "stats s = zeroStats \<longrightarrow>
        (let st = stats (snd (syncFolders p ncFolder yandexFolder yandexBasePath s))
         in TotalFiles st = UploadedFiles st + SkippedFiles st + ErrorFiles st
            \<and> 0 \<le> TotalFiles st \<and> 0 \<le> UploadedFiles st \<and> 0 \<le> SkippedFiles st
            \<and> 0 \<le> ErrorFiles st)"
    using g by (auto simp: statsGrow_def zeroStats_def Let_def)
  show ?thesis
    using g z statsGrow_syncFileEntry stats_syncFile stats_createFolderChain by blast
qed

theorem stats_accounting_witness:
  "stats (demoState [] [] [''/src/bad.txt'', ''dst/sub'']) = zeroStats
   \<and> stats (snd (syncFolders demoProcessor
        (Folder ''/src'' 0 [File ''/src/bad.txt'' 1, File ''/src/b.txt'' 1, File ''/src/c.txt'' 1]
           [Folder ''/src/sub'' 0 [File ''/src/sub/d.txt'' 2] []])
        (Folder ''/dst'' 0 [File ''/dst/c.txt'' 1] []) ''/dst''
        (demoState [] [] [''/src/bad.txt'', ''dst/sub''])))
      = \<lparr>TotalFiles = 3, UploadedFiles = 1, SkippedFiles = 1, ErrorFiles = 1\<rparr>
   \<and> (3::int) = 1 + 1 + 1"
proof -
  have z: "stats (demoState [] [] [''/src/bad.txt'', ''dst/sub'']) = zeroStats"
    by (simp add: demoState_def)
  have run: "stats (snd (syncFolders demoProcessor
        (Folder ''/src'' 0 [File ''/src/bad.txt'' 1, File ''/src/b.txt'' 1, File ''/src/c.txt'' 1]
           [Folder ''/src/sub'' 0 [File ''/src/sub/d.txt'' 2] []])
        (Folder ''/dst'' 0 [File ''/dst/c.txt'' 1] []) ''/dst''
        (demoState [] [] [''/src/bad.txt'', ''dst/sub''])))
      = \<lparr>TotalFiles = 3, UploadedFiles = 1, SkippedFiles = 1, ErrorFiles = 1\<rparr>"
    by code_simp
  show ?thesis
    using z run
      stats_accounting [of "demoState [] [] [''/src/bad.txt'', ''dst/sub'']" demoProcessor
        "Folder ''/src'' 0 [File ''/src/bad.txt'' 1, File ''/src/b.txt'' 1, File ''/src/c.txt'' 1]
           [Folder ''/src/sub'' 0 [File ''/src/sub/d.txt'' 2] []]"
        "Folder ''/dst'' 0 [File ''/dst/c.txt'' 1] []" "''/dst''"]
    by simp
qed

end
